theory Spec2Isabelle
  imports Main "HOL-Library.Log_Nat"
begin

section \<open>Binary32 arithmetic\<close>

text \<open>
  The detector computes with C++ \<open>float\<close>. A value is a NaN, an infinity with its sign
  bit, or a finite number given by its sign bit and its magnitude, a non-negative rational
  (so that \<open>Fin True 0\<close> is the negative zero). The payload and the sign of a NaN are not
  tracked. Arithmetic rounds the exact result to the nearest binary32 value, ties to even
  (the default rounding mode); comparisons involving a NaN are false.
\<close>

datatype f32 = NaN | Inf bool | Fin bool rat

definition rne :: "rat \<Rightarrow> int" where
  \<comment> \<open>the nearest integer, a tie going to the even one\<close>
  "rne x = (let f = \<lfloor>x\<rfloor>; d = x - of_int f in
     if d < 1/2 then f else if 1/2 < d then f + 1 else if even f then f else f + 1)"

definition flog2 :: "rat \<Rightarrow> int" where
  \<comment> \<open>for \<open>q > 0\<close>, the exponent \<open>e\<close> with \<open>2^e \<le> q < 2^(e+1)\<close>\<close>
  "flog2 q = (if 1 \<le> q then bitlen \<lfloor>q\<rfloor> - 1 else - bitlen (\<lceil>1 / q\<rceil> - 1))"

definition quantum :: "rat \<Rightarrow> rat" where
  \<comment> \<open>the spacing of binary32 values around \<open>q\<close>: 24 significant bits, exponents from \<open>-126\<close>\<close>
  "quantum q = power_int 2 (max (flog2 q) (- 126) - 23)"

definition round_to_quantum :: "rat \<Rightarrow> rat" where
  "round_to_quantum q = of_int (rne (q / quantum q)) * quantum q"

definition round32 :: "rat \<Rightarrow> rat option" where
  \<comment> \<open>rounds a magnitude; \<open>None\<close> is overflow\<close>
  "round32 q = (if q = 0 then Some 0 else
     let r = round_to_quantum q in if r < 2 ^ 128 then Some r else None)"

definition f32_make :: "bool \<Rightarrow> rat option \<Rightarrow> f32" where
  "f32_make s r = (case r of None \<Rightarrow> Inf s | Some m \<Rightarrow> Fin s m)"

fun f32_mul :: "f32 \<Rightarrow> f32 \<Rightarrow> f32" where
  "f32_mul NaN _ = NaN"
| "f32_mul _ NaN = NaN"
| "f32_mul (Inf s) (Inf t) = Inf (s \<noteq> t)"
| "f32_mul (Inf s) (Fin t n) = (if n = 0 then NaN else Inf (s \<noteq> t))"
| "f32_mul (Fin s m) (Inf t) = (if m = 0 then NaN else Inf (s \<noteq> t))"
| "f32_mul (Fin s m) (Fin t n) = f32_make (s \<noteq> t) (round32 (m * n))"

fun f32_div :: "f32 \<Rightarrow> f32 \<Rightarrow> f32" where
  "f32_div NaN _ = NaN"
| "f32_div _ NaN = NaN"
| "f32_div (Inf s) (Inf t) = NaN"
| "f32_div (Inf s) (Fin t n) = Inf (s \<noteq> t)"
| "f32_div (Fin s m) (Inf t) = Fin (s \<noteq> t) 0"
| "f32_div (Fin s m) (Fin t n) =
     (if n = 0 then (if m = 0 then NaN else Inf (s \<noteq> t))
      else f32_make (s \<noteq> t) (round32 (m / n)))"

definition f32_of_int :: "int \<Rightarrow> f32" where
  \<comment> \<open>\<open>static_cast<float>\<close> of an integer\<close>
  "f32_of_int n = f32_make (n < 0) (round32 (of_int \<bar>n\<bar>))"

definition f32_of_rat :: "rat \<Rightarrow> f32" where
  \<comment> \<open>the value of a decimal literal such as \<open>0.87f\<close>\<close>
  "f32_of_rat q = f32_make (q < 0) (round32 \<bar>q\<bar>)"

definition f32_to_int :: "f32 \<Rightarrow> int option" where
  \<comment> \<open>\<open>static_cast<int>\<close> truncates toward zero; the conversion of a NaN, of an infinity
      or of a value whose truncation does not fit 32 bits is undefined (\<open>None\<close>)\<close>
  "f32_to_int x = (case x of
       Fin s m \<Rightarrow> (let v = (if s then - \<lfloor>m\<rfloor> else \<lfloor>m\<rfloor>)
                  in if - 2147483648 \<le> v \<and> v \<le> 2147483647 then Some v else None)
     | _ \<Rightarrow> None)"

definition signed :: "bool \<Rightarrow> rat \<Rightarrow> rat" where
  "signed s m = (if s then - m else m)"

fun f32_less :: "f32 \<Rightarrow> f32 \<Rightarrow> bool" where
  "f32_less NaN _ = False"
| "f32_less _ NaN = False"
| "f32_less (Inf s) (Inf t) = (s \<and> \<not> t)"
| "f32_less (Inf s) (Fin t n) = s"
| "f32_less (Fin s m) (Inf t) = (\<not> t)"
| "f32_less (Fin s m) (Fin t n) = (signed s m < signed t n)"

fun f32_le :: "f32 \<Rightarrow> f32 \<Rightarrow> bool" where
  "f32_le NaN _ = False"
| "f32_le _ NaN = False"
| "f32_le (Inf s) (Inf t) = (s \<or> \<not> t)"
| "f32_le (Inf s) (Fin t n) = s"
| "f32_le (Fin s m) (Inf t) = (\<not> t)"
| "f32_le (Fin s m) (Fin t n) = (signed s m \<le> signed t n)"

definition f32_ge :: "f32 \<Rightarrow> f32 \<Rightarrow> bool" where
  "f32_ge a b = f32_le b a"

definition f32_zero :: f32 where "f32_zero = Fin False 0"

definition f32_one :: f32 where "f32_one = Fin False 1"

definition is_binary32 :: "f32 \<Rightarrow> bool" where
  \<comment> \<open>the magnitude of a finite value is non-negative and representable\<close>
  "is_binary32 x = (case x of Fin s m \<Rightarrow> 0 \<le> m \<and> round32 m = Some m | _ \<Rightarrow> True)"


definition std_min :: "f32 \<Rightarrow> f32 \<Rightarrow> f32" where
  \<comment> \<open>\<open>std::min(a, b)\<close> is \<open>(b < a) ? b : a\<close>\<close>
  "std_min a b = (if f32_less b a then b else a)"

definition std_max :: "f32 \<Rightarrow> f32 \<Rightarrow> f32" where
  \<comment> \<open>\<open>std::max(a, b)\<close> is \<open>(a < b) ? b : a\<close>\<close>
  "std_max a b = (if f32_less a b then b else a)"


section \<open>Data model\<close>

text \<open>
  \<open>DetectionBox\<close> is the struct filled by the decoder. A \<open>cv::Mat\<close> is reduced to its row
  and column counts and its pixel bytes; \<open>empty()\<close> holds when there is no data or no
  element. A tensor is its shape and its \<open>float\<close> buffer.
\<close>

record DetectionBox =
  x1 :: f32
  y1 :: f32
  x2 :: f32
  y2 :: f32
  score :: f32
  class_id :: int
  class_name :: string

record Mat =
  rows :: nat
  cols :: nat
  pixels :: "nat list"

definition Mat_empty :: "Mat \<Rightarrow> bool" where
  "Mat_empty m = (pixels m = [] \<or> rows m * cols m = 0)"

record tensor =
  shape :: "int list"
  tdata :: "f32 list"

subsection \<open>Outcomes\<close>

text \<open>
  A computation returns a value, throws one of the three exception types that
  \<open>detectDocLayout\<close> catches, or has undefined behaviour (a read outside a buffer, a
  \<open>float\<close> to \<open>int\<close> conversion that is out of range).
\<close>

datatype exn = OrtException | CvException | StdException

datatype 'a outcome = Ok 'a | Throws exn | Undefined

definition obind :: "'a outcome \<Rightarrow> ('a \<Rightarrow> 'b outcome) \<Rightarrow> 'b outcome" where
  "obind m f = (case m of Ok a \<Rightarrow> f a | Throws e \<Rightarrow> Throws e | Undefined \<Rightarrow> Undefined)"

subsection \<open>External collaborators\<close>

text \<open>
  The loaded model is an object with its declared input and output names and its \<open>Run\<close>
  method, which receives the named input tensors and the requested output names. Querying
  a name at an index below the count succeeds; at any other index the runtime throws.
\<close>

record ort_session =
  input_names :: "string list"
  output_names :: "string list"
  Run :: "(string \<times> tensor) list \<Rightarrow> string list \<Rightarrow> tensor list outcome"

definition GetInputNameAllocated :: "ort_session \<Rightarrow> nat \<Rightarrow> string outcome" where
  "GetInputNameAllocated s i =
     (if i < length (input_names s) then Ok (input_names s ! i) else Throws OrtException)"

definition GetOutputNameAllocated :: "ort_session \<Rightarrow> nat \<Rightarrow> string outcome" where
  "GetOutputNameAllocated s i =
     (if i < length (output_names s) then Ok (output_names s ! i) else Throws OrtException)"

definition CreateTensor :: "f32 list \<Rightarrow> int list \<Rightarrow> tensor outcome" where
  \<comment> \<open>\<open>Ort::Value::CreateTensor<float>(info, p_data, count, shape, rank)\<close>: a view of the
      first elements of the buffer; the runtime rejects a negative dimension and a buffer
      shorter than the shape asks for\<close>
  "CreateTensor p_data shp =
     (if (\<exists>d \<in> set shp. d < 0) \<or> int (length p_data) < prod_list shp
      then Throws OrtException
      else Ok \<lparr>shape = shp, tdata = take (nat (prod_list shp)) p_data\<rparr>)"

text \<open>
  What the translation unit takes from elsewhere: the configured model path, the
  construction of the runtime session from it, the two preprocessing functions and the
  class table.
\<close>

record env =
  MODEL_PATH :: string
  load_model :: "string \<Rightarrow> ort_session outcome"
  preprocessImage :: "Mat \<Rightarrow> int \<Rightarrow> int \<Rightarrow> (Mat \<times> f32 list) outcome"
  imageToBlob :: "Mat \<Rightarrow> f32 list outcome"
  DOC_CLASSES :: "string list"

subsection \<open>Program state\<close>

text \<open>
  The function-local statics of \<open>detectDocLayout\<close> (\<open>st_session\<close> is the static
  \<open>session\<close>, and so on; each is initialised by the first call that reaches its
  declaration without throwing), and the log of the calls made to the collaborators.
\<close>

datatype event =
    CreateSession string
  | Preprocess Mat
  | ToBlob Mat
  | RunModel "(string \<times> tensor) list" "string list"

record world =
  st_session :: "ort_session option"
  st_input_name :: "string option"
  st_output_name_0 :: "string option"
  st_output_name_1 :: "string option"
  calls :: "event list"

type_synonym 'a prog = "world \<Rightarrow> 'a outcome \<times> world"

definition seq :: "'a prog \<Rightarrow> ('a \<Rightarrow> 'b prog) \<Rightarrow> 'b prog" where
  "seq m f w = (case m w of
       (Ok a, w') \<Rightarrow> f a w'
     | (Throws e, w') \<Rightarrow> (Throws e, w')
     | (Undefined, w') \<Rightarrow> (Undefined, w'))"

definition lift :: "'a outcome \<Rightarrow> 'a prog" where
  "lift r w = (r, w)"

definition call :: "event \<Rightarrow> 'a outcome \<Rightarrow> 'a prog" where
  "call ev r w = (r, w\<lparr>calls := calls w @ [ev]\<rparr>)"

section \<open>The detection pipeline\<close>

subsection \<open>Steps 1 and 2: the session and its names\<close>

definition static_session :: "env \<Rightarrow> ort_session prog" where
  "static_session E w = (case st_session w of
       Some s \<Rightarrow> (Ok s, w)
     | None \<Rightarrow> seq (call (CreateSession (MODEL_PATH E)) (load_model E (MODEL_PATH E)))
                 (\<lambda>s w'. (Ok s, w'\<lparr>st_session := Some s\<rparr>)) w)"

definition static_input_name :: "ort_session \<Rightarrow> string prog" where
  "static_input_name s w = (case st_input_name w of
       Some n \<Rightarrow> (Ok n, w)
     | None \<Rightarrow> seq (lift (GetInputNameAllocated s 0))
                 (\<lambda>n w'. (Ok n, w'\<lparr>st_input_name := Some n\<rparr>)) w)"

definition static_output_name_0 :: "ort_session \<Rightarrow> string prog" where
  "static_output_name_0 s w = (case st_output_name_0 w of
       Some n \<Rightarrow> (Ok n, w)
     | None \<Rightarrow> seq (lift (GetOutputNameAllocated s 0))
                 (\<lambda>n w'. (Ok n, w'\<lparr>st_output_name_0 := Some n\<rparr>)) w)"

definition static_output_name_1 :: "ort_session \<Rightarrow> nat \<Rightarrow> string prog" where
  "static_output_name_1 s num_outputs w = (case st_output_name_1 w of
       Some n \<Rightarrow> (Ok n, w)
     | None \<Rightarrow> seq (lift (if 1 < num_outputs then GetOutputNameAllocated s 1
                           else GetOutputNameAllocated s 0))
                 (\<lambda>n w'. (Ok n, w'\<lparr>st_output_name_1 := Some n\<rparr>)) w)"

definition get_names :: "(nat \<Rightarrow> string outcome) \<Rightarrow> nat \<Rightarrow> unit outcome" where
  \<comment> \<open>the two loops that fetch every name for the log\<close>
  "get_names get n = fold (\<lambda>i r. obind r (\<lambda>_. obind (get i) (\<lambda>_. Ok ()))) [0..<n] (Ok ())"

definition init_runtime :: "env \<Rightarrow> (ort_session \<times> nat \<times> string) prog" where
  "init_runtime E =
     seq (static_session E) (\<lambda>session.
     seq (static_input_name session) (\<lambda>input_name.
     let num_inputs = length (input_names session);
         num_outputs = length (output_names session) in
     seq (lift (get_names (GetInputNameAllocated session) num_inputs)) (\<lambda>_.
     seq (lift (get_names (GetOutputNameAllocated session) num_outputs)) (\<lambda>_.
     seq (static_output_name_0 session) (\<lambda>output_name_0.
     seq (static_output_name_1 session num_outputs) (\<lambda>output_name_1.
     lift (Ok (session, num_inputs, output_name_0))))))))"

subsection \<open>Steps 3 to 5: preprocessing and the input tensors\<close>

definition prepare_tensors :: "env \<Rightarrow> Mat \<Rightarrow> (f32 list \<times> tensor \<times> tensor) prog" where
  "prepare_tensors E img =
     (let target_width = 640; target_height = 640 in
      seq (call (Preprocess img) (preprocessImage E img target_width target_height))
        (\<lambda>(resized_img, scale_factor).
      seq (call (ToBlob resized_img) (imageToBlob E resized_img)) (\<lambda>blob.
      let image_shape = [1, 3, target_height, target_width];
          scale_shape = [1, 2] in
      seq (lift (CreateTensor blob image_shape)) (\<lambda>image_tensor.
      seq (lift (CreateTensor scale_factor scale_shape)) (\<lambda>scale_tensor.
      lift (Ok (scale_factor, image_tensor, scale_tensor)))))))"

subsection \<open>Step 6: the input schema and the forward pass\<close>

definition build_inputs ::
  "nat \<Rightarrow> Mat \<Rightarrow> tensor \<Rightarrow> tensor \<Rightarrow> (bool \<times> (string \<times> tensor) list) outcome" where
  "build_inputs num_inputs img image_tensor scale_tensor =
     (let is_l_model = (num_inputs = 3);
          im_shape_data = [f32_of_int (int (rows img)), f32_of_int (int (cols img))];
          im_shape_shape = [1, 2];
          l_scale_factor = [f32_one, f32_one];
          scale_shape = [1, 2]
      in if is_l_model then
           obind (CreateTensor im_shape_data im_shape_shape) (\<lambda>im_shape_tensor.
           obind (CreateTensor l_scale_factor scale_shape) (\<lambda>l_scale_tensor.
           Ok (is_l_model,
               [(''im_shape'', im_shape_tensor), (''image'', image_tensor),
                (''scale_factor'', l_scale_tensor)])))
         else
           Ok (is_l_model, [(''image'', image_tensor), (''scale_factor'', scale_tensor)]))"

definition run_inference ::
  "ort_session \<Rightarrow> nat \<Rightarrow> string \<Rightarrow> Mat \<Rightarrow> tensor \<Rightarrow> tensor \<Rightarrow> (bool \<times> tensor list) prog" where
  "run_inference session num_inputs output_name_0 img image_tensor scale_tensor =
     seq (lift (build_inputs num_inputs img image_tensor scale_tensor))
       (\<lambda>(is_l_model, inputs).
     seq (call (RunModel inputs [output_name_0]) (Run session inputs [output_name_0]))
       (\<lambda>outputs.
     lift (Ok (is_l_model, outputs))))"

subsection \<open>Steps 7 and 8: decoding the output tensor\<close>

definition to_int32 :: "int \<Rightarrow> int" where
  \<comment> \<open>\<open>static_cast<int>\<close> of an \<open>int64_t\<close>\<close>
  "to_int32 v = (v + 2147483648) mod 4294967296 - 2147483648"

definition read_at :: "f32 list \<Rightarrow> int \<Rightarrow> f32 outcome" where
  \<comment> \<open>\<open>p[k]\<close> with the index computed in \<open>int\<close>\<close>
  "read_at p k = (if 0 \<le> k \<and> k \<le> 2147483647 \<and> nat k < length p
                  then Ok (p ! nat k) else Undefined)"

definition cast_int :: "f32 \<Rightarrow> int outcome" where
  "cast_int v = (case f32_to_int v of Some n \<Rightarrow> Ok n | None \<Rightarrow> Undefined)"

definition clamp :: "f32 \<Rightarrow> f32 \<Rightarrow> f32" where
  \<comment> \<open>\<open>std::max(0.0f, std::min(v, hi))\<close>\<close>
  "clamp v hi = std_max f32_zero (std_min v hi)"

definition make_box ::
  "string list \<Rightarrow> Mat \<Rightarrow> f32 \<Rightarrow> f32 \<Rightarrow> f32 \<Rightarrow>
   int \<Rightarrow> f32 \<Rightarrow> f32 \<Rightarrow> f32 \<Rightarrow> f32 \<Rightarrow> f32 \<Rightarrow> DetectionBox option" where
  \<comment> \<open>the body of the conditional of the loop; \<open>None\<close> when the row is skipped\<close>
  "make_box classes img conf_threshold inv_scale_x inv_scale_y cid sc bx1 by1 bx2 by2 =
     (if f32_ge sc conf_threshold \<and> 0 \<le> cid \<and> cid < int (length classes) then
        Some \<lparr>x1 = clamp (f32_mul bx1 inv_scale_x) (f32_of_int (int (cols img))),
              y1 = clamp (f32_mul by1 inv_scale_y) (f32_of_int (int (rows img))),
              x2 = clamp (f32_mul bx2 inv_scale_x) (f32_of_int (int (cols img))),
              y2 = clamp (f32_mul by2 inv_scale_y) (f32_of_int (int (rows img))),
              score = sc,
              class_id = cid,
              class_name = classes ! nat cid\<rparr>
      else None)"

definition decode_row ::
  "string list \<Rightarrow> Mat \<Rightarrow> f32 \<Rightarrow> f32 \<Rightarrow> f32 \<Rightarrow> f32 list \<Rightarrow> int \<Rightarrow>
   DetectionBox option outcome" where
  "decode_row classes img conf_threshold inv_scale_x inv_scale_y output_data i =
     obind (read_at output_data (i * 6 + 0)) (\<lambda>c.
     obind (cast_int c) (\<lambda>cid.
     obind (read_at output_data (i * 6 + 1)) (\<lambda>sc.
     obind (read_at output_data (i * 6 + 2)) (\<lambda>bx1.
     obind (read_at output_data (i * 6 + 3)) (\<lambda>by1.
     obind (read_at output_data (i * 6 + 4)) (\<lambda>bx2.
     obind (read_at output_data (i * 6 + 5)) (\<lambda>by2.
     Ok (make_box classes img conf_threshold inv_scale_x inv_scale_y
           cid sc bx1 by1 bx2 by2))))))))"

function decode_loop ::
  "string list \<Rightarrow> Mat \<Rightarrow> f32 \<Rightarrow> f32 \<Rightarrow> f32 \<Rightarrow> f32 list \<Rightarrow> int \<Rightarrow> int \<Rightarrow>
   DetectionBox list \<Rightarrow> DetectionBox list outcome" where
  "decode_loop classes img conf_threshold inv_scale_x inv_scale_y output_data
       num_detections i results =
     (if i < num_detections then
        (case decode_row classes img conf_threshold inv_scale_x inv_scale_y output_data i of
           Ok r \<Rightarrow>
             decode_loop classes img conf_threshold inv_scale_x inv_scale_y output_data
               num_detections (i + 1)
               (case r of Some box \<Rightarrow> results @ [box] | None \<Rightarrow> results)
         | Throws e \<Rightarrow> Throws e
         | Undefined \<Rightarrow> Undefined)
      else Ok results)"
  by pat_completeness auto
termination
  by (relation "measure (\<lambda>(classes, img, conf_threshold, inv_scale_x, inv_scale_y,
        output_data, num_detections, i, results). nat (num_detections - i))") auto

definition inverse_scale :: "bool \<Rightarrow> f32 list \<Rightarrow> nat \<Rightarrow> f32 outcome" where
  \<comment> \<open>\<open>is_l_model ? 1.0f : (1.0f / scale_factor[k])\<close>\<close>
  "inverse_scale is_l_model scale_factor k =
     (if is_l_model then Ok f32_one
      else if k < length scale_factor then Ok (f32_div f32_one (scale_factor ! k))
      else Undefined)"

definition parse_output ::
  "string list \<Rightarrow> Mat \<Rightarrow> f32 \<Rightarrow> bool \<Rightarrow> f32 list \<Rightarrow> tensor list \<Rightarrow>
   DetectionBox list outcome" where
  "parse_output classes img conf_threshold is_l_model scale_factor outputs =
     (case outputs of
        [] \<Rightarrow> Undefined
      | out0 # _ \<Rightarrow>
          (case shape out0 of
             [] \<Rightarrow> Undefined
           | d0 # _ \<Rightarrow>
               (let num_detections = to_int32 d0;
                    output_data = tdata out0 in
                obind (inverse_scale is_l_model scale_factor 0) (\<lambda>inv_scale_x.
                obind (inverse_scale is_l_model scale_factor 1) (\<lambda>inv_scale_y.
                decode_loop classes img conf_threshold inv_scale_x inv_scale_y
                  output_data num_detections 0 [])))))"

subsection \<open>The entry point\<close>

text \<open>
  \<open>try_block\<close> is the body of the \<open>try\<close>. Every call that can throw comes before the
  decoding loop, so the \<open>results\<close> vector is still empty in each handler, and all three
  handlers fall through to \<open>return results\<close>.
\<close>

definition try_block :: "env \<Rightarrow> Mat \<Rightarrow> f32 \<Rightarrow> DetectionBox list prog" where
  "try_block E img conf_threshold =
     seq (init_runtime E) (\<lambda>(session, num_inputs, output_name_0).
     seq (prepare_tensors E img) (\<lambda>(scale_factor, image_tensor, scale_tensor).
     seq (run_inference session num_inputs output_name_0 img image_tensor scale_tensor)
       (\<lambda>(is_l_model, outputs).
     lift (parse_output (DOC_CLASSES E) img conf_threshold is_l_model scale_factor
             outputs))))"

definition detectDocLayout :: "env \<Rightarrow> Mat \<Rightarrow> f32 \<Rightarrow> DetectionBox list prog" where
  "detectDocLayout E img conf_threshold w =
     (if Mat_empty img then (Ok [], w)
      else (case try_block E img conf_threshold w of
              (Ok results, w') \<Rightarrow> (Ok results, w')
            | (Throws e, w') \<Rightarrow> (Ok [], w')
            | (Undefined, w') \<Rightarrow> (Undefined, w')))"

section \<open>Serialisation\<close>

subsection \<open>Numbers as text\<close>

function show_digits :: "int \<Rightarrow> string" where
  \<comment> \<open>the decimal digits of a non-negative integer\<close>
  "show_digits n = (if n < 10 then [''0123456789'' ! nat n]
                    else show_digits (n div 10) @ [''0123456789'' ! nat (n mod 10)])"
  by pat_completeness auto
termination
  by (relation "measure nat") auto

definition show_int :: "int \<Rightarrow> string" where
  "show_int i = (if i < 0 then ''-'' @ show_digits (- i) else show_digits i)"

definition zero_pad :: "nat \<Rightarrow> string \<Rightarrow> string" where
  "zero_pad p ds = replicate (p - length ds) (CHR ''0'') @ ds"

definition show_scaled :: "bool \<Rightarrow> nat \<Rightarrow> int \<Rightarrow> string" where
  \<comment> \<open>the sign, the digits of \<open>n div 10^p\<close>, and for \<open>p > 0\<close> the point and \<open>p\<close> digits\<close>
  "show_scaled s p n =
     (if s then ''-'' else []) @ show_digits (n div 10 ^ p) @
     (if p = 0 then [] else ''.'' @ zero_pad p (show_digits (n mod 10 ^ p)))"

definition show_fixed :: "nat \<Rightarrow> f32 \<Rightarrow> string" where
  \<comment> \<open>what an output stream writes for a \<open>float\<close> under \<open>std::fixed\<close> with precision \<open>p\<close>
      (the conversion \<open>%.pf\<close>): the exact value rounded to \<open>p\<close> decimals, ties to even\<close>
  "show_fixed p v = (case v of
       NaN \<Rightarrow> ''nan''
     | Inf s \<Rightarrow> (if s then ''-inf'' else ''inf'')
     | Fin s m \<Rightarrow> show_scaled s p (rne (m * 10 ^ p)))"

subsection \<open>The output stream\<close>

text \<open>
  A \<open>std::ostringstream\<close>: the text written so far and the two pieces of formatting state
  the serialisers change. A new stream has the default float notation and precision 6.
  The text of a \<open>float\<close> in the default notation is a parameter \<open>dflt\<close> of the serialisers.
\<close>

record ostringstream =
  str :: string
  fixed :: bool
  precision :: nat

definition new_stream :: ostringstream where
  "new_stream = \<lparr>str = [], fixed = False, precision = 6\<rparr>"

definition put :: "string \<Rightarrow> ostringstream \<Rightarrow> ostringstream" where
  "put t s = s\<lparr>str := str s @ t\<rparr>"

definition std_fixed :: "ostringstream \<Rightarrow> ostringstream" where
  "std_fixed s = s\<lparr>fixed := True\<rparr>"

definition setprecision :: "nat \<Rightarrow> ostringstream \<Rightarrow> ostringstream" where
  "setprecision n s = s\<lparr>precision := n\<rparr>"

definition put_float :: "(nat \<Rightarrow> f32 \<Rightarrow> string) \<Rightarrow> f32 \<Rightarrow> ostringstream \<Rightarrow> ostringstream" where
  "put_float dflt v s =
     put (if fixed s then show_fixed (precision s) v else dflt (precision s) v) s"

definition put_int :: "int \<Rightarrow> ostringstream \<Rightarrow> ostringstream" where
  "put_int i s = put (show_int i) s"

definition put_size :: "nat \<Rightarrow> ostringstream \<Rightarrow> ostringstream" where
  "put_size n s = put (show_digits (int n)) s"

subsection \<open>The three serialisers\<close>

text \<open>
  The loop body is the same text at the three places, up to the precision set before
  \<open>x1\<close>; \<open>write_box\<close> is that body and \<open>write_boxes\<close> the loop, which writes a comma after
  every element but the last.
\<close>

definition write_box ::
  "(nat \<Rightarrow> f32 \<Rightarrow> string) \<Rightarrow> nat \<Rightarrow> DetectionBox \<Rightarrow> ostringstream \<Rightarrow> ostringstream" where
  \<open>write_box dflt coord_precision box json =
     (let json = put ''{'' json;
          json = put_float dflt (x1 box)
                   (setprecision coord_precision (std_fixed (put ''"x1":'' json)));
          json = put '','' json;
          json = put '','' (put_float dflt (y1 box) (put ''"y1":'' json));
          json = put '','' (put_float dflt (x2 box) (put ''"x2":'' json));
          json = put '','' (put_float dflt (y2 box) (put ''"y2":'' json));
          json = put '','' (put_float dflt (score box) (setprecision 4 (put ''"score":'' json)));
          json = put '','' (put_int (class_id box) (put ''"class_id":'' json));
          json = put ''"'' (put (class_name box) (put ''"class_name":"'' json));
          json = put ''}'' json
      in json)\<close>

fun write_boxes ::
  "(nat \<Rightarrow> f32 \<Rightarrow> string) \<Rightarrow> nat \<Rightarrow> DetectionBox list \<Rightarrow> ostringstream \<Rightarrow> ostringstream" where
  "write_boxes dflt coord_precision [] json = json"
| "write_boxes dflt coord_precision (box # rest) json =
     write_boxes dflt coord_precision rest
       (let json = write_box dflt coord_precision box json
        in if rest \<noteq> [] then put '','' json else json)"

definition detectionsToJson :: "(nat \<Rightarrow> f32 \<Rightarrow> string) \<Rightarrow> DetectionBox list \<Rightarrow> string" where
  \<open>detectionsToJson dflt detections =
     (let json = put ''{"detections":['' new_stream;
          json = write_boxes dflt 2 detections json;
          json = put ''}'' (put_size (length detections) (put ''],"count":'' json))
      in str json)\<close>

definition detectLayout_json ::
  "(nat \<Rightarrow> f32 \<Rightarrow> string) \<Rightarrow> DetectionBox list \<Rightarrow> int \<Rightarrow> Mat \<Rightarrow> string" where
  \<comment> \<open>the response built by \<open>detectLayout\<close> once the detections and the elapsed time are known\<close>
  \<open>detectLayout_json dflt detections inference_time img =
     (let json = put ''{"detections":['' new_stream;
          json = write_boxes dflt 1 detections json;
          json = put ''],'' json;
          json = put '','' (put_size (length detections) (put ''"count":'' json));
          json = put '','' (put_int inference_time (put ''"inference_time_ms":'' json));
          json = put '','' (put_int (int (cols img)) (put ''"image_width":'' json));
          json = put_int (int (rows img)) (put ''"image_height":'' json);
          json = put ''}'' json
      in str json)\<close>

definition detectLayoutFromBytes_json ::
  "(nat \<Rightarrow> f32 \<Rightarrow> string) \<Rightarrow> DetectionBox list \<Rightarrow> int \<Rightarrow> int \<Rightarrow> int \<Rightarrow> string" where
  \<comment> \<open>the response built by \<open>detectLayoutFromBytes\<close>\<close>
  \<open>detectLayoutFromBytes_json dflt detections inference_time width height =
     (let json = put ''{"detections":['' new_stream;
          json = write_boxes dflt 1 detections json;
          json = put ''],'' json;
          json = put '','' (put_size (length detections) (put ''"count":'' json));
          json = put '','' (put_int inference_time (put ''"inference_time_ms":'' json));
          json = put '','' (put_int width (put ''"image_width":'' json));
          json = put_int height (put ''"image_height":'' json);
          json = put ''}'' json
      in str json)\<close>

subsection \<open>The rendering the wire format describes\<close>

definition box_text :: "nat \<Rightarrow> nat \<Rightarrow> DetectionBox \<Rightarrow> string" where
  \<comment> \<open>one detection with its coordinates in fixed-point notation with \<open>cp\<close> decimals and
      its score in fixed-point notation with \<open>sp\<close> decimals\<close>
  \<open>box_text cp sp box =
     ''{"x1":'' @ show_fixed cp (x1 box) @ '',"y1":'' @ show_fixed cp (y1 box) @
     '',"x2":'' @ show_fixed cp (x2 box) @ '',"y2":'' @ show_fixed cp (y2 box) @
     '',"score":'' @ show_fixed sp (score box) @
     '',"class_id":'' @ show_int (class_id box) @
     '',"class_name":"'' @ class_name box @ ''"}''\<close>

fun comma_separated :: "string list \<Rightarrow> string" where
  "comma_separated [] = []"
| "comma_separated [t] = t"
| "comma_separated (t # u # ts) = t @ '','' @ comma_separated (u # ts)"

section \<open>Auxiliary notions for the statements\<close>

subsection \<open>Rows of the output tensor\<close>

text \<open>
  A row of the output tensor as the decoder's comments describe it, and the buffer of a
  tensor holding given rows, row after row.
\<close>

record detection_row =
  row_class :: f32
  row_score :: f32
  row_x1 :: f32
  row_y1 :: f32
  row_x2 :: f32
  row_y2 :: f32

definition row_values :: "detection_row \<Rightarrow> f32 list" where
  "row_values r = [row_class r, row_score r, row_x1 r, row_y1 r, row_x2 r, row_y2 r]"

definition flatten_rows :: "detection_row list \<Rightarrow> f32 list" where
  "flatten_rows rs = concat (map row_values rs)"

definition tensor_of_rows :: "detection_row list \<Rightarrow> tensor" where
  "tensor_of_rows rs = \<lparr>shape = [int (length rs), 6], tdata = flatten_rows rs\<rparr>"

definition row_box ::
  "string list \<Rightarrow> Mat \<Rightarrow> f32 \<Rightarrow> f32 \<Rightarrow> f32 \<Rightarrow> detection_row \<Rightarrow> DetectionBox option" where
  \<comment> \<open>the box of a row whose class value converts to \<open>int\<close>\<close>
  "row_box classes img conf_threshold inv_scale_x inv_scale_y r =
     make_box classes img conf_threshold inv_scale_x inv_scale_y
       (the (f32_to_int (row_class r))) (row_score r)
       (row_x1 r) (row_y1 r) (row_x2 r) (row_y2 r)"

definition convertible :: "detection_row \<Rightarrow> bool" where
  "convertible r = (f32_to_int (row_class r) \<noteq> None)"

definition row_class_id :: "detection_row \<Rightarrow> int" where
  "row_class_id r = the (f32_to_int (row_class r))"

definition passes :: "string list \<Rightarrow> f32 \<Rightarrow> detection_row \<Rightarrow> bool" where
  \<comment> \<open>the score reaches the threshold and the class index lies within the class table\<close>
  "passes classes conf_threshold r =
     (f32_ge (row_score r) conf_threshold \<and>
      0 \<le> row_class_id r \<and> row_class_id r < int (length classes))"

definition class_in_range :: "string list \<Rightarrow> detection_row \<Rightarrow> bool" where
  "class_in_range classes r = (0 \<le> row_class_id r \<and> row_class_id r < int (length classes))"

definition box_of_row :: "string list \<Rightarrow> Mat \<Rightarrow> f32 \<Rightarrow> f32 \<Rightarrow> detection_row \<Rightarrow> DetectionBox" where
  \<comment> \<open>the detection a row stands for: coordinates scaled by the inverse scale of their
      axis and clamped to the image, the score as it is, the class and its name\<close>
  "box_of_row classes img inv_scale_x inv_scale_y r =
     \<lparr>x1 = clamp (f32_mul (row_x1 r) inv_scale_x) (f32_of_int (int (cols img))),
      y1 = clamp (f32_mul (row_y1 r) inv_scale_y) (f32_of_int (int (rows img))),
      x2 = clamp (f32_mul (row_x2 r) inv_scale_x) (f32_of_int (int (cols img))),
      y2 = clamp (f32_mul (row_y2 r) inv_scale_y) (f32_of_int (int (rows img))),
      score = row_score r,
      class_id = row_class_id r,
      class_name = classes ! nat (row_class_id r)\<rparr>"

definition inv_scale :: "bool \<Rightarrow> f32 list \<Rightarrow> nat \<Rightarrow> f32" where
  \<comment> \<open>the inverse scale of axis \<open>k\<close>: one under the three-input schema, the reciprocal of
      the scale factor otherwise\<close>
  "inv_scale is_l_model scale_factor k =
     (if is_l_model then f32_one else f32_div f32_one (scale_factor ! k))"


subsection \<open>The image normaliser\<close>

text \<open>
  Modelled from the spec: \<open>preprocessImage\<close> is defined in a file that is not part of the
  sources at hand. The specification gives its contract: a plain stretch of the image to
  the target size, and the scale factor
  \<open>(target_width / original_width, target_height / original_height)\<close>. The resampling of
  the pixels is the parameter \<open>resample\<close>.
\<close>

definition ScaleFactor_spec :: "Mat \<Rightarrow> int \<Rightarrow> int \<Rightarrow> f32 list" where
  "ScaleFactor_spec img target_width target_height =
     [f32_div (f32_of_int target_width) (f32_of_int (int (cols img))),
      f32_div (f32_of_int target_height) (f32_of_int (int (rows img)))]"

definition preprocessImage_spec ::
  "(Mat \<Rightarrow> int \<Rightarrow> int \<Rightarrow> nat list) \<Rightarrow> Mat \<Rightarrow> int \<Rightarrow> int \<Rightarrow> (Mat \<times> f32 list) outcome" where
  "preprocessImage_spec resample img target_width target_height =
     Ok (\<lparr>rows = nat target_height, cols = nat target_width,
           pixels = resample img target_width target_height\<rparr>,
         ScaleFactor_spec img target_width target_height)"

subsection \<open>Stub collaborators\<close>

text \<open>
  A stub session declares the given input names and answers every forward pass with the
  given outcome. A stub environment loads that session, normalises images as the
  specification says, and packs every image into a buffer of the right size.
\<close>

definition stub_session :: "string list \<Rightarrow> tensor list outcome \<Rightarrow> ort_session" where
  "stub_session names answer =
     \<lparr>input_names = names, output_names = [''output''], Run = (\<lambda>inputs outs. answer)\<rparr>"

definition stub_env :: "ort_session outcome \<Rightarrow> string list \<Rightarrow> env" where
  "stub_env loaded classes =
     \<lparr>MODEL_PATH = ''model.onnx'',
      load_model = (\<lambda>path. loaded),
      preprocessImage = preprocessImage_spec (\<lambda>img w h. replicate (nat (w * h * 3)) 0),
      imageToBlob = (\<lambda>img. Ok (replicate (3 * rows img * cols img) f32_zero)),
      DOC_CLASSES = classes\<rparr>"

definition fresh_world :: world where
  "fresh_world = \<lparr>st_session = None, st_input_name = None, st_output_name_0 = None,
                   st_output_name_1 = None, calls = []\<rparr>"

definition blank_image :: "nat \<Rightarrow> nat \<Rightarrow> Mat" where
  \<comment> \<open>\<open>blank_image w h\<close> is a black image \<open>w\<close> pixels wide and \<open>h\<close> pixels high\<close>
  "blank_image w h = \<lparr>rows = h, cols = w, pixels = replicate (3 * w * h) 0\<rparr>"

definition stub_resized :: Mat where
  \<comment> \<open>what the stub normaliser returns for every image\<close>
  "stub_resized = \<lparr>rows = 640, cols = 640, pixels = replicate 1228800 0\<rparr>"

definition stub_image_tensor :: tensor where
  "stub_image_tensor = \<lparr>shape = [1, 3, 640, 640], tdata = replicate 1228800 f32_zero\<rparr>"

definition two_input_names :: "string list" where
  "two_input_names = [''image'', ''scale_factor'']"

definition three_input_names :: "string list" where
  "three_input_names = [''im_shape'', ''image'', ''scale_factor'']"

definition three_classes :: "string list" where
  "three_classes = [''class_0'', ''class_1'', ''class_2'']"

definition one_input_name :: "string list" where
  "one_input_name = [''image'']"


definition row_of :: "rat \<Rightarrow> rat \<Rightarrow> rat \<Rightarrow> rat \<Rightarrow> rat \<Rightarrow> rat \<Rightarrow> detection_row" where
  \<comment> \<open>the row whose six floats are the binary32 values nearest to the given numbers\<close>
  "row_of c s a b d e =
     \<lparr>row_class = f32_of_rat c, row_score = f32_of_rat s, row_x1 = f32_of_rat a,
      row_y1 = f32_of_rat b, row_x2 = f32_of_rat d, row_y2 = f32_of_rat e\<rparr>"

section \<open>Properties of the arithmetic\<close>

lemma rne_bounds: "of_int (rne x) \<le> x + 1/2" "x - 1/2 \<le> of_int (rne x)"
  unfolding rne_def Let_def by (auto; linarith)+


lemma rne_of_int [simp]: "rne (of_int n) = n"
  unfolding rne_def Let_def by simp


lemma flog2_bounds:
  assumes "0 < q"
  shows "power_int 2 (flog2 q) \<le> q" and "q < power_int 2 (flog2 q + 1)"
proof -
  have A: "power_int 2 (flog2 q) \<le> q \<and> q < power_int 2 (flog2 q + 1)"
  proof (cases "1 \<le> q")
    case True
    define n where "n = \<lfloor>q\<rfloor>"
    have n1: "1 \<le> n" using True by (simp add: n_def le_floor_iff)
    then have npos: "0 < n" by simp
    have bl: "1 \<le> bitlen n" using npos by (simp add: bitlen_alt_def)
    from bitlen_bounds[OF npos] have b: "2 ^ nat (bitlen n - 1) \<le> n" "n < 2 ^ nat (bitlen n)" by auto
    have e: "flog2 q = bitlen n - 1" using True by (simp add: flog2_def n_def)
    have "rat_of_int (2 ^ nat (bitlen n - 1)) \<le> rat_of_int n" using b(1) by (simp only: of_int_le_iff)
    also have "\<dots> \<le> q" by (simp add: n_def)
    finally have lo: "power_int 2 (flog2 q) \<le> q" using bl by (simp add: e power_int_def)
    have "n + 1 \<le> 2 ^ nat (bitlen n)" using b(2) by simp
    then have "rat_of_int (n + 1) \<le> rat_of_int (2 ^ nat (bitlen n))" by (simp only: of_int_le_iff)
    moreover have "q < rat_of_int (n + 1)" unfolding n_def by linarith
    ultimately have hi: "q < power_int 2 (flog2 q + 1)" using bl by (simp add: e power_int_def)
    from lo hi show ?thesis by simp
  next
    case False
    then have q1: "q < 1" by simp
    define n where "n = \<lceil>1 / q\<rceil> - 1"
    have "1 < 1 / q" using assms q1 by (simp add: field_simps)
    then have "2 \<le> \<lceil>1 / q\<rceil>" by linarith
    then have npos: "0 < n" by (simp add: n_def)
    have bl: "1 \<le> bitlen n" using npos by (simp add: bitlen_alt_def)
    from bitlen_bounds[OF npos] have b: "2 ^ nat (bitlen n - 1) \<le> n" "n < 2 ^ nat (bitlen n)" by auto
    have e: "flog2 q = - bitlen n" using False by (simp add: flog2_def n_def)
    have "n + 1 \<le> 2 ^ nat (bitlen n)" using b(2) by simp
    then have "rat_of_int (n + 1) \<le> rat_of_int (2 ^ nat (bitlen n))" by (simp only: of_int_le_iff)
    moreover have "1 / q \<le> rat_of_int (n + 1)" unfolding n_def by simp
    ultimately have "1 / q \<le> 2 ^ nat (bitlen n)" by simp
    then have "1 \<le> 2 ^ nat (bitlen n) * q" using assms by (simp add: field_simps)
    then have lo: "power_int 2 (flog2 q) \<le> q" using bl
      by (simp add: e power_int_def power_inverse field_simps)
    have "(2::rat) ^ nat (bitlen n - 1) \<le> rat_of_int n" using b(1) by simp
    moreover have "rat_of_int n < 1 / q" unfolding n_def by linarith
    ultimately have "2 ^ nat (bitlen n - 1) < 1 / q" by linarith
    then have "2 ^ nat (bitlen n - 1) * q < 1" using assms by (simp add: field_simps)
    moreover have "- bitlen n + 1 \<le> 0" using bl by simp
    moreover have "nat (- (- bitlen n + 1)) = nat (bitlen n - 1)" by simp
    ultimately have hi: "q < power_int 2 (flog2 q + 1)" using bl
      by (cases "bitlen n = 1") (simp_all add: e power_int_def power_inverse field_simps)
    from lo hi show ?thesis by simp
  qed
  from A show "power_int 2 (flog2 q) \<le> q" and "q < power_int 2 (flog2 q + 1)" by simp_all
qed


lemma quantum_pos [simp]: "0 < quantum q"
  by (simp add: quantum_def)

lemma quantum_nonneg [simp]: "0 \<le> quantum q"
  using quantum_pos[of q] by (rule order.strict_implies_order)







lemma f32_less_NaN_right [simp]: "\<not> f32_less x NaN"
  by (cases x) simp_all

lemma f32_le_NaN_right [simp]: "\<not> f32_le x NaN"
  by (cases x) simp_all

lemma f32_mul_NaN_right [simp]: "f32_mul x NaN = NaN"
  by (cases x) simp_all

lemma f32_le_refl: "x \<noteq> NaN \<Longrightarrow> f32_le x x"
  by (cases x) simp_all

lemma f32_le_trans: "f32_le x y \<Longrightarrow> f32_le y z \<Longrightarrow> f32_le x z"
  by (cases x; cases y; cases z) auto

lemma f32_not_less_le: "x \<noteq> NaN \<Longrightarrow> y \<noteq> NaN \<Longrightarrow> \<not> f32_less x y \<Longrightarrow> f32_le y x"
  by (cases x; cases y) auto

lemma f32_less_imp_le: "f32_less x y \<Longrightarrow> f32_le x y"
  by (cases x; cases y) auto









lemma flog2_of_int_range:
  assumes "0 < n" "n < 16777216"
  shows "0 \<le> flog2 (rat_of_int n)" "flog2 (rat_of_int n) \<le> 23"
proof -
  have one: "1 \<le> rat_of_int n" using assms(1) by simp
  have "0 < n" by fact
  then have "1 \<le> bitlen n" by (simp add: bitlen_alt_def)
  then show "0 \<le> flog2 (rat_of_int n)" using one by (simp add: flog2_def)
  have pos: "0 < rat_of_int n" using assms(1) by simp
  show "flog2 (rat_of_int n) \<le> 23"
  proof (rule ccontr)
    assume "\<not> flog2 (rat_of_int n) \<le> 23"
    then have "24 \<le> flog2 (rat_of_int n)" by simp
    then have "power_int (2::rat) 24 \<le> power_int 2 (flog2 (rat_of_int n))"
      by (intro power_int_increasing) simp_all
    also have "\<dots> \<le> rat_of_int n" using flog2_bounds(1)[OF pos] .
    finally have "(16777216::rat) \<le> rat_of_int n" by simp
    then have "16777216 \<le> n" by linarith
    with assms(2) show False by simp
  qed
qed

lemma round32_of_int_exact:
  assumes "0 \<le> n" "n \<le> 16777216"
  shows "round32 (rat_of_int n) = Some (rat_of_int n)"
proof -
  consider "n = 0" | "n = 16777216" | "0 < n" "n < 16777216" using assms by linarith
  then show ?thesis
  proof cases
    case 1
    then show ?thesis by (simp add: round32_def)
  next
    case 2
    have "round32 16777216 = Some 16777216" by code_simp
    with 2 show ?thesis by simp
  next
    case 3
    define e where "e = flog2 (rat_of_int n)"
    have e: "0 \<le> e" "e \<le> 23" using flog2_of_int_range[OF 3] by (simp_all add: e_def)
    define k where "k = nat (23 - e)"
    have "max e (- 126) - 23 = - int k" using e by (simp add: k_def)
    then have q: "quantum (rat_of_int n) = inverse (2 ^ k)"
      by (simp add: quantum_def e_def[symmetric] power_int_minus)
    have "rat_of_int n / quantum (rat_of_int n) = rat_of_int n * 2 ^ k"
      unfolding q by (simp add: field_simps)
    also have "\<dots> = rat_of_int (n * 2 ^ k)" by simp
    finally have "rat_of_int n / quantum (rat_of_int n) = rat_of_int (n * 2 ^ k)" .
    then have "rne (rat_of_int n / quantum (rat_of_int n)) = n * 2 ^ k"
      by (simp only: rne_of_int)
    then have r: "round_to_quantum (rat_of_int n) = rat_of_int n"
      by (simp add: round_to_quantum_def) (simp add: q)
    have "rat_of_int n < 2 ^ 128" using 3(2) by simp
    with r 3(1) show ?thesis by (simp add: round32_def)
  qed
qed

lemma f32_of_int_exact:
  "n \<le> 16777216 \<Longrightarrow> f32_of_int (int n) = Fin False (of_nat n)"
  using round32_of_int_exact[of "int n"] by (simp add: f32_of_int_def f32_make_def)

section \<open>Properties of the pipeline\<close>

lemma seq_Ok: "m w = (Ok a, w') \<Longrightarrow> seq m f w = f a w'"
  by (simp add: seq_def)

lemma seq_Throws: "m w = (Throws e, w') \<Longrightarrow> seq m f w = (Throws e, w')"
  by (simp add: seq_def)

lemma seq_Undefined: "m w = (Undefined, w') \<Longrightarrow> seq m f w = (Undefined, w')"
  by (simp add: seq_def)

lemma lift_apply [simp]: "lift r w = (r, w)"
  by (simp add: lift_def)

lemma call_apply [simp]: "call ev r w = (r, w\<lparr>calls := calls w @ [ev]\<rparr>)"
  by (simp add: call_def)





lemma run_inference_eq:
  "build_inputs n img it st = Ok (l, feed) \<Longrightarrow>
   run_inference s n out0 img it st w =
     (case Run s feed [out0] of
        Ok outs \<Rightarrow> (Ok (l, outs), w\<lparr>calls := calls w @ [RunModel feed [out0]]\<rparr>)
      | Throws e \<Rightarrow> (Throws e, w\<lparr>calls := calls w @ [RunModel feed [out0]]\<rparr>)
      | Undefined \<Rightarrow> (Undefined, w\<lparr>calls := calls w @ [RunModel feed [out0]]\<rparr>))"
  by (simp add: run_inference_def seq_def split: outcome.splits)

lemma try_block_eq:
  assumes "init_runtime E w = (Ok (s, n, out0), w1)"
    and "prepare_tensors E img w1 = (Ok (sf, it, st), w2)"
    and "build_inputs n img it st = Ok (l, feed)"
  shows "try_block E img t w =
     (case Run s feed [out0] of
        Ok outs \<Rightarrow> (parse_output (DOC_CLASSES E) img t l sf outs,
                     w2\<lparr>calls := calls w2 @ [RunModel feed [out0]]\<rparr>)
      | Throws e \<Rightarrow> (Throws e, w2\<lparr>calls := calls w2 @ [RunModel feed [out0]]\<rparr>)
      | Undefined \<Rightarrow> (Undefined, w2\<lparr>calls := calls w2 @ [RunModel feed [out0]]\<rparr>))"
  unfolding try_block_def
  by (simp add: seq_def assms(1,2) run_inference_eq[OF assms(3)] split: outcome.splits)


lemma get_names_Ok:
  "(\<And>i. i < n \<Longrightarrow> \<exists>x. get i = Ok x) \<Longrightarrow> get_names get n = Ok ()"
proof (induction n)
  case 0
  then show ?case by (simp add: get_names_def)
next
  case (Suc n)
  then have "get_names get n = Ok ()" by simp
  moreover obtain x where "get n = Ok x" using Suc.prems[of n] by auto
  ultimately show ?case by (simp add: get_names_def obind_def)
qed

lemma get_input_names_Ok:
  "get_names (GetInputNameAllocated s) (length (input_names s)) = Ok ()"
  by (rule get_names_Ok) (simp add: GetInputNameAllocated_def)

lemma get_output_names_Ok:
  "get_names (GetOutputNameAllocated s) (length (output_names s)) = Ok ()"
  by (rule get_names_Ok) (simp add: GetOutputNameAllocated_def)

lemma init_runtime_fresh:
  assumes "st_session w = None" "st_input_name w = None" "st_output_name_0 w = None"
    "st_output_name_1 w = None"
    and "load_model E (MODEL_PATH E) = Ok s" "input_names s \<noteq> []" "output_names s \<noteq> []"
  shows "init_runtime E w =
     (Ok (s, length (input_names s), output_names s ! 0),
      w\<lparr>st_session := Some s, st_input_name := Some (input_names s ! 0),
        st_output_name_0 := Some (output_names s ! 0),
        st_output_name_1 := Some (if 1 < length (output_names s) then output_names s ! 1
                                  else output_names s ! 0),
        calls := calls w @ [CreateSession (MODEL_PATH E)]\<rparr>)"
  using assms
  by (simp add: init_runtime_def seq_def static_session_def static_input_name_def
      static_output_name_0_def static_output_name_1_def GetInputNameAllocated_def
      GetOutputNameAllocated_def get_input_names_Ok get_output_names_Ok Let_def)

lemma init_runtime_num_inputs:
  "init_runtime E w = (Ok (s, n, out0), w') \<Longrightarrow> n = length (input_names s)"
  by (auto simp: init_runtime_def seq_def Let_def split: prod.splits outcome.splits)

lemma prepare_tensors_Ok:
  assumes "preprocessImage E img 640 640 = Ok (resized, sf)"
    and "imageToBlob E resized = Ok blob"
    and "1228800 \<le> length blob" "2 \<le> length sf"
  shows "prepare_tensors E img w =
     (Ok (sf, \<lparr>shape = [1, 3, 640, 640], tdata = take 1228800 blob\<rparr>,
          \<lparr>shape = [1, 2], tdata = take 2 sf\<rparr>),
      w\<lparr>calls := calls w @ [Preprocess img, ToBlob resized]\<rparr>)"
  using assms
  by (simp add: prepare_tensors_def seq_def CreateTensor_def Let_def)

lemma build_inputs_three:
  "build_inputs 3 img it st =
     Ok (True, [(''im_shape'', \<lparr>shape = [1, 2],
                   tdata = [f32_of_int (int (rows img)), f32_of_int (int (cols img))]\<rparr>),
                (''image'', it),
                (''scale_factor'', \<lparr>shape = [1, 2], tdata = [f32_one, f32_one]\<rparr>)])"
  by (simp add: build_inputs_def CreateTensor_def obind_def Let_def)

lemma build_inputs_other:
  "n \<noteq> 3 \<Longrightarrow> build_inputs n img it st = Ok (False, [(''image'', it), (''scale_factor'', st)])"
  by (simp add: build_inputs_def Let_def)


declare decode_loop.simps [simp del]

lemma length_row_values [simp]: "length (row_values r) = 6"
  by (simp add: row_values_def)

lemma length_flatten_rows [simp]: "length (flatten_rows rs) = 6 * length rs"
  by (induction rs) (simp_all add: flatten_rows_def)

lemma flatten_rows_Cons: "flatten_rows (r # rs) = row_values r @ flatten_rows rs"
  by (simp add: flatten_rows_def)

lemma flatten_rows_nth:
  "i < length rs \<Longrightarrow> j < 6 \<Longrightarrow> flatten_rows rs ! (6 * i + j) = row_values (rs ! i) ! j"
proof (induction rs arbitrary: i)
  case Nil
  then show ?case by simp
next
  case (Cons r rs)
  show ?case
  proof (cases i)
    case 0
    with Cons.prems show ?thesis by (simp add: flatten_rows_Cons nth_append)
  next
    case (Suc k)
    with Cons.prems have "k < length rs" by simp
    from Cons.IH[OF this Cons.prems(2)] Suc show ?thesis
      by (simp add: flatten_rows_Cons nth_append)
  qed
qed

lemma read_at_flatten_rows:
  assumes "i < length rs" "j < 6" "6 * length rs \<le> 2147483647"
  shows "read_at (flatten_rows rs) (int i * 6 + int j) = Ok (row_values (rs ! i) ! j)"
proof -
  have n: "nat (int i * 6 + int j) = 6 * i + j" by linarith
  have "6 * i + j < 6 * length rs" using assms by simp
  then show ?thesis
    using assms flatten_rows_nth[OF assms(1,2)]
    by (simp add: read_at_def n)
qed

lemma decode_row_flatten_rows:
  assumes "i < length rs" "6 * length rs \<le> 2147483647"
  shows "decode_row cls img t ix iy (flatten_rows rs) (int i) =
     (if convertible (rs ! i) then Ok (row_box cls img t ix iy (rs ! i)) else Undefined)"
proof -
  have r: "read_at (flatten_rows rs) (int i * 6 + int j) = Ok (row_values (rs ! i) ! j)"
    if "j < 6" for j using read_at_flatten_rows[OF assms(1) that assms(2)] .
  from r[of 0] r[of 1] r[of 2] r[of 3] r[of 4] r[of 5] show ?thesis
    by (auto simp: decode_row_def obind_def row_values_def cast_int_def convertible_def
        row_box_def split: option.splits)
qed

lemma decode_loop_flatten_rows:
  assumes "6 * length rs \<le> 2147483647" "\<forall>r \<in> set rs. convertible r"
  shows "i \<le> length rs \<Longrightarrow>
     decode_loop cls img t ix iy (flatten_rows rs) (int (length rs)) (int i) acc =
       Ok (acc @ List.map_filter (row_box cls img t ix iy) (drop i rs))"
proof (induction "length rs - i" arbitrary: i acc)
  case 0
  then show ?case by (simp add: decode_loop.simps map_filter_simps)
next
  case (Suc k)
  then have lt: "i < length rs" and k: "k = length rs - Suc i" by simp_all
  have conv: "convertible (rs ! i)" using assms(2) lt by simp
  have d: "drop i rs = rs ! i # drop (Suc i) rs" using lt by (simp add: Cons_nth_drop_Suc)
  have step: "int i + 1 = int (Suc i)" by simp
  from Suc.hyps(1)[OF k, of "case row_box cls img t ix iy (rs ! i) of
        Some box \<Rightarrow> acc @ [box] | None \<Rightarrow> acc"] lt
  show ?case
    by (subst decode_loop.simps)
       (simp add: decode_row_flatten_rows[OF lt assms(1)] conv d step map_filter_simps
          del: of_nat_Suc split: option.splits)
qed

lemma to_int32_small: "0 \<le> v \<Longrightarrow> v \<le> 2147483647 \<Longrightarrow> to_int32 v = v"
  by (simp add: to_int32_def)

lemma parse_output_rows:
  assumes "6 * length rs \<le> 2147483647" "\<forall>r \<in> set rs. convertible r"
    and "inverse_scale l sf 0 = Ok ix" "inverse_scale l sf 1 = Ok iy"
  shows "parse_output cls img t l sf (tensor_of_rows rs # others) =
     Ok (List.map_filter (row_box cls img t ix iy) rs)"
proof -
  have "to_int32 (int (length rs)) = int (length rs)" using assms(1) by (intro to_int32_small) simp_all
  then show ?thesis
    using decode_loop_flatten_rows[OF assms(1,2), of 0 cls img t ix iy "[]"] assms(3,4)
    by (simp add: parse_output_def tensor_of_rows_def obind_def)
qed

lemma read_at_never_throws: "read_at p k \<noteq> Throws e"
  by (simp add: read_at_def)

lemma decode_row_never_throws: "decode_row cls img t ix iy d i \<noteq> Throws e"
  by (auto simp: decode_row_def obind_def read_at_def cast_int_def
      split: outcome.splits option.splits if_splits)

lemma decode_loop_never_throws: "decode_loop cls img t ix iy d n i acc \<noteq> Throws e"
proof (induction cls img t ix iy d n i acc rule: decode_loop.induct)
  case (1 cls img t ix iy d n i acc)
  show ?case
    using 1 decode_row_never_throws[of cls img t ix iy d i]
    by (subst decode_loop.simps) (auto split: outcome.splits)
qed

lemma parse_output_never_throws: "parse_output cls img t l sf outs \<noteq> Throws e"
  by (auto simp: parse_output_def obind_def inverse_scale_def decode_loop_never_throws
      split: list.splits outcome.splits if_splits)

lemma detect_eq:
  assumes "\<not> Mat_empty img"
    and "init_runtime E w = (Ok (s, n, out0), w1)"
    and "prepare_tensors E img w1 = (Ok (sf, it, st), w2)"
    and "build_inputs n img it st = Ok (l, feed)"
    and "Run s feed [out0] = Ok outs"
  shows "detectDocLayout E img t w =
     (parse_output (DOC_CLASSES E) img t l sf outs,
      w2\<lparr>calls := calls w2 @ [RunModel feed [out0]]\<rparr>)"
  using assms(1,5)
  by (cases "parse_output (DOC_CLASSES E) img t l sf outs")
     (simp_all add: detectDocLayout_def try_block_eq[OF assms(2,3,4)] parse_output_never_throws)

lemma prepare_tensors_scale_tensor:
  "prepare_tensors E img w1 = (Ok (sf, it, st), w2) \<Longrightarrow>
   st = \<lparr>shape = [1, 2], tdata = take 2 sf\<rparr> \<and> 2 \<le> length sf"
  by (auto simp: prepare_tensors_def seq_def CreateTensor_def Let_def
      split: prod.splits outcome.splits if_splits)

lemma f32_mul_one: "is_binary32 v \<Longrightarrow> f32_mul v f32_one = v"
  by (cases v) (auto simp: is_binary32_def f32_one_def f32_make_def)

subsection \<open>Runs against the stub collaborators\<close>

lemma stub_init_runtime:
  "names \<noteq> [] \<Longrightarrow>
   init_runtime (stub_env (Ok (stub_session names answer)) cls) fresh_world =
     (Ok (stub_session names answer, length names, ''output''),
      \<lparr>st_session = Some (stub_session names answer), st_input_name = Some (names ! 0),
       st_output_name_0 = Some ''output'', st_output_name_1 = Some ''output'',
       calls = [CreateSession ''model.onnx'']\<rparr>)"
  using init_runtime_fresh[of fresh_world "stub_env (Ok (stub_session names answer)) cls"
          "stub_session names answer"]
  by (simp add: fresh_world_def stub_env_def stub_session_def)

lemma length_ScaleFactor_spec [simp]: "length (ScaleFactor_spec img tw th) = 2"
  by (simp add: ScaleFactor_spec_def)

lemma stub_prepare_tensors:
  "prepare_tensors (stub_env loaded cls) img w1 =
     (Ok (ScaleFactor_spec img 640 640, stub_image_tensor,
          \<lparr>shape = [1, 2], tdata = ScaleFactor_spec img 640 640\<rparr>),
      w1\<lparr>calls := calls w1 @ [Preprocess img, ToBlob stub_resized]\<rparr>)"
  using prepare_tensors_Ok[of "stub_env loaded cls" img stub_resized
          "ScaleFactor_spec img 640 640" "replicate 1228800 f32_zero" w1]
  by (simp add: stub_env_def preprocessImage_spec_def stub_resized_def stub_image_tensor_def)


lemma stub_detect_full:
  assumes "names \<noteq> []" "\<not> Mat_empty img"
    and "build_inputs (length names) img stub_image_tensor
           \<lparr>shape = [1, 2], tdata = ScaleFactor_spec img 640 640\<rparr> = Ok (l, feed)"
  shows "detectDocLayout (stub_env (Ok (stub_session names (Ok outs))) cls) img t fresh_world =
     (parse_output cls img t l (ScaleFactor_spec img 640 640) outs,
      \<lparr>st_session = Some (stub_session names (Ok outs)), st_input_name = Some (names ! 0),
       st_output_name_0 = Some ''output'', st_output_name_1 = Some ''output'',
       calls = [CreateSession ''model.onnx'', Preprocess img, ToBlob stub_resized,
                RunModel feed [''output'']]\<rparr>)"
proof -
  let ?s = "stub_session names (Ok outs)"
  let ?E = "stub_env (Ok ?s) cls"
  have r: "Run ?s feed [''output''] = Ok outs" by (simp add: stub_session_def)
  have c: "DOC_CLASSES ?E = cls" by (simp add: stub_env_def)
  show ?thesis
    using detect_eq[OF assms(2) stub_init_runtime[OF assms(1), of "Ok outs" cls]
        stub_prepare_tensors[of "Ok ?s" cls img] assms(3) r, of t]
    by (simp add: c)
qed

lemma row_box_dims:
  "rows a = rows b \<Longrightarrow> cols a = cols b \<Longrightarrow>
   row_box cls a t ix iy r = row_box cls b t ix iy r"
  by (simp add: row_box_def make_box_def)

lemma Mat_empty_blank_image: "Mat_empty (blank_image w h) \<longleftrightarrow> w = 0 \<or> h = 0"
  by (auto simp: Mat_empty_def blank_image_def)

lemma rows_blank_image [simp]: "rows (blank_image w h) = h"
  by (simp add: blank_image_def)

lemma cols_blank_image [simp]: "cols (blank_image w h) = w"
  by (simp add: blank_image_def)

subsection \<open>The decoder as a filter over the rows\<close>

lemma row_box_passes:
  "row_box cls img t ix iy r =
     (if passes cls t r then Some (box_of_row cls img ix iy r) else None)"
  by (simp add: row_box_def make_box_def passes_def box_of_row_def row_class_id_def)

lemma map_filter_row_box:
  "List.map_filter (row_box cls img t ix iy) rs =
     map (box_of_row cls img ix iy) (filter (passes cls t) rs)"
  by (induction rs) (simp_all add: map_filter_simps row_box_passes)

lemma inverse_scale_inv_scale:
  "l \<or> k < length sf \<Longrightarrow> inverse_scale l sf k = Ok (inv_scale l sf k)"
  by (auto simp: inverse_scale_def inv_scale_def)

lemma parse_output_filter:
  assumes "6 * length rs \<le> 2147483647" "\<forall>r \<in> set rs. convertible r" "l \<or> 2 \<le> length sf"
  shows "parse_output cls img t l sf (tensor_of_rows rs # others) =
     Ok (map (box_of_row cls img (inv_scale l sf 0) (inv_scale l sf 1))
           (filter (passes cls t) rs))"
proof -
  have "inverse_scale l sf 0 = Ok (inv_scale l sf 0)" "inverse_scale l sf 1 = Ok (inv_scale l sf 1)"
    using assms(3) by (auto intro!: inverse_scale_inv_scale)
  from parse_output_rows[OF assms(1,2) this] show ?thesis
    by (simp add: map_filter_row_box)
qed

lemma detect_rows:
  assumes "\<not> Mat_empty img"
    and "init_runtime E w = (Ok (s, n, out0), w1)"
    and "prepare_tensors E img w1 = (Ok (sf, it, st), w2)"
    and "build_inputs n img it st = Ok (l, feed)"
    and "Run s feed [out0] = Ok (tensor_of_rows rs # others)"
    and "6 * length rs \<le> 2147483647" "\<forall>r \<in> set rs. convertible r"
  shows "fst (detectDocLayout E img t w) =
     Ok (map (box_of_row (DOC_CLASSES E) img (inv_scale l sf 0) (inv_scale l sf 1))
           (filter (passes (DOC_CLASSES E) t) rs))"
proof -
  have "2 \<le> length sf" using prepare_tensors_scale_tensor[OF assms(3)] by simp
  then show ?thesis
    using detect_eq[OF assms(1-5), of t] parse_output_filter[OF assms(6,7), of l sf]
    by simp
qed

lemma trunc_toward_zero:
  assumes "f32_to_int (Fin s m) = Some cid" "0 \<le> m"
  shows "cid = (if 0 \<le> signed s m then \<lfloor>signed s m\<rfloor> else \<lceil>signed s m\<rceil>)"
proof -
  from assms have c: "cid = (if s then - \<lfloor>m\<rfloor> else \<lfloor>m\<rfloor>)"
    by (auto simp: f32_to_int_def Let_def split: if_splits)
  show ?thesis
  proof (cases "m = 0")
    case True
    then show ?thesis using c by (simp add: signed_def)
  next
    case False
    with assms(2) have "0 < m" by simp
    then show ?thesis using c by (auto simp: signed_def ceiling_def)
  qed
qed

lemma decode_row_offsets:
  assumes "0 \<le> i" "i * 6 + 5 \<le> 2147483647" "nat (i * 6 + 5) < length d"
  shows "decode_row cls img t ix iy d i =
     (case f32_to_int (d ! nat (i * 6 + 0)) of
        None \<Rightarrow> Undefined
      | Some cid \<Rightarrow>
          Ok (make_box cls img t ix iy cid (d ! nat (i * 6 + 1)) (d ! nat (i * 6 + 2))
                (d ! nat (i * 6 + 3)) (d ! nat (i * 6 + 4)) (d ! nat (i * 6 + 5))))"
proof -
  have "read_at d (i * 6 + j) = Ok (d ! nat (i * 6 + j))" if "0 \<le> j" "j \<le> 5" for j
    using that assms by (simp add: read_at_def)
  from this[of 0] this[of 1] this[of 2] this[of 3] this[of 4] this[of 5] show ?thesis
    by (simp add: decode_row_def obind_def cast_int_def split: option.splits)
qed

subsection \<open>Clamped coordinates\<close>











subsection \<open>A run that doubles the coordinates\<close>

lemma ScaleFactor_spec_1280: 
  "ScaleFactor_spec (blank_image 1280 1280) 640 640 = [Fin False (1/2), Fin False (1/2)]"
proof -
  have "f32_div (f32_of_int 640) (f32_of_int 1280) = Fin False (1/2)" by code_simp
  then show ?thesis by (simp add: ScaleFactor_spec_def)
qed

lemma inverse_half: "f32_div f32_one (Fin False (1/2)) = Fin False 2"
  by code_simp

lemma parse_doubling_example:
  "parse_output three_classes (blank_image 1280 1280) (f32_of_rat (1/2)) False
     [Fin False (1/2), Fin False (1/2)] [tensor_of_rows [row_of 0 (9/10) 10 10 50 50]] =
   Ok [\<lparr>x1 = Fin False 20, y1 = Fin False 20, x2 = Fin False 100, y2 = Fin False 100,
         score = f32_of_rat (9/10), class_id = 0, class_name = ''class_0''\<rparr>]"
proof -
  let ?img = "blank_image 1280 1280" and ?t = "f32_of_rat (1/2)"
  let ?r = "row_of 0 (9/10) 10 10 50 50"
  let ?sf = "[Fin False (1/2), Fin False (1/2)]"
  have conv: "\<forall>r \<in> set [?r]. convertible r" by code_simp
  have inv: "inverse_scale False ?sf 0 = Ok (Fin False 2)"
    "inverse_scale False ?sf 1 = Ok (Fin False 2)"
    by (simp_all add: inverse_scale_def inverse_half)
  have "row_box three_classes \<lparr>rows = 1280, cols = 1280, pixels = []\<rparr> ?t (Fin False 2)
          (Fin False 2) ?r =
        Some \<lparr>x1 = Fin False 20, y1 = Fin False 20, x2 = Fin False 100, y2 = Fin False 100,
         score = f32_of_rat (9/10), class_id = 0, class_name = ''class_0''\<rparr>"
    by code_simp
  then have box: "row_box three_classes ?img ?t (Fin False 2) (Fin False 2) ?r =
        Some \<lparr>x1 = Fin False 20, y1 = Fin False 20, x2 = Fin False 100, y2 = Fin False 100,
         score = f32_of_rat (9/10), class_id = 0, class_name = ''class_0''\<rparr>"
    using row_box_dims[of ?img "\<lparr>rows = 1280, cols = 1280, pixels = []\<rparr>"] by simp
  show ?thesis
    using parse_output_rows[OF _ conv inv, of three_classes ?img ?t "[]"]
    by (simp add: box map_filter_simps)
qed


lemma make_box_emits_iff:
  "make_box cls img t ix iy cid sc a b c e \<noteq> None \<longleftrightarrow>
     f32_ge sc t \<and> 0 \<le> cid \<and> cid < int (length cls)"
  by (simp add: make_box_def)

lemma box_of_row_dims:
  "rows a = rows b \<Longrightarrow> cols a = cols b \<Longrightarrow>
   box_of_row cls a ix iy r = box_of_row cls b ix iy r"
  by (simp add: box_of_row_def)

lemma inv_scale_1280:
  "inv_scale False (ScaleFactor_spec (blank_image 1280 1280) 640 640) 0 = Fin False 2"
  "inv_scale False (ScaleFactor_spec (blank_image 1280 1280) 640 640) 1 = Fin False 2"
  by (simp_all add: inv_scale_def ScaleFactor_spec_1280 inverse_half)

lemma passes_zero:
  "passes cls f32_zero r \<longleftrightarrow> class_in_range cls r \<and> f32_le f32_zero (row_score r)"
  by (auto simp: passes_def class_in_range_def f32_ge_def)

lemma filter_passes_zero:
  "\<forall>r \<in> set rs. f32_le f32_zero (row_score r) \<Longrightarrow>
   filter (passes cls f32_zero) rs = filter (class_in_range cls) rs"
  by (induction rs) (simp_all add: passes_zero)

subsection \<open>A run on a row with swapped corners\<close>


subsection \<open>The scenario of a 1280 by 960 image\<close>

lemma ScaleFactor_spec_1280_960:
  "ScaleFactor_spec (blank_image 1280 960) 640 640 =
     [Fin False (1/2), Fin False (11184811 / 16777216)]"
proof -
  have "f32_div (f32_of_int 640) (f32_of_int 1280) = Fin False (1/2)" by code_simp
  moreover have "f32_div (f32_of_int 640) (f32_of_int 960) = Fin False (11184811 / 16777216)"
    by code_simp
  ultimately show ?thesis by (simp add: ScaleFactor_spec_def)
qed

lemma inv_scale_1280_960:
  "inv_scale False [Fin False (1/2), Fin False (11184811 / 16777216)] 0 = Fin False 2"
  "inv_scale False [Fin False (1/2), Fin False (11184811 / 16777216)] 1 = Fin False (3/2)"
proof -
  have "f32_div f32_one (Fin False (11184811 / 16777216)) = Fin False (3/2)" by code_simp
  then show "inv_scale False [Fin False (1/2), Fin False (11184811 / 16777216)] 1 = Fin False (3/2)"
    by (simp add: inv_scale_def)
  show "inv_scale False [Fin False (1/2), Fin False (11184811 / 16777216)] 0 = Fin False 2"
    by (simp add: inv_scale_def inverse_half)
qed

lemma scenario_row_facts:
  "row_class_id (row_of 2 (87/100) 100 50 300 200) = 2"
  "f32_ge (row_score (row_of 2 (87/100) 100 50 300 200)) (f32_of_rat (1/2))"
  "convertible (row_of 2 (87/100) 100 50 300 200)"
  "row_score (row_of 2 (87/100) 100 50 300 200) = f32_of_rat (87/100)"
  "f32_ge (f32_of_rat (87/100)) (f32_of_rat (1/2))"
  by code_simp+

lemma scenario_box_960:
  "box_of_row cls (blank_image 1280 960) (Fin False 2) (Fin False (3/2))
     (row_of 2 (87/100) 100 50 300 200) =
   \<lparr>x1 = Fin False 200, y1 = Fin False 75, x2 = Fin False 600, y2 = Fin False 300,
     score = f32_of_rat (87/100), class_id = 2, class_name = cls ! 2\<rparr>"
proof -
  let ?r = "row_of 2 (87/100) 100 50 300 200"
  have "clamp (f32_mul (row_x1 ?r) (Fin False 2)) (f32_of_int 1280) = Fin False 200"
    "clamp (f32_mul (row_y1 ?r) (Fin False (3/2))) (f32_of_int 960) = Fin False 75"
    "clamp (f32_mul (row_x2 ?r) (Fin False 2)) (f32_of_int 1280) = Fin False 600"
    "clamp (f32_mul (row_y2 ?r) (Fin False (3/2))) (f32_of_int 960) = Fin False 300"
    by code_simp+
  then show ?thesis by (simp add: box_of_row_def scenario_row_facts)
qed

lemma scenario_box_1280:
  "box_of_row cls (blank_image 1280 1280) (Fin False 2) (Fin False 2)
     (row_of 2 (87/100) 100 50 300 200) =
   \<lparr>x1 = Fin False 200, y1 = Fin False 100, x2 = Fin False 600, y2 = Fin False 400,
     score = f32_of_rat (87/100), class_id = 2, class_name = cls ! 2\<rparr>"
proof -
  let ?r = "row_of 2 (87/100) 100 50 300 200"
  have "clamp (f32_mul (row_x1 ?r) (Fin False 2)) (f32_of_int 1280) = Fin False 200"
    "clamp (f32_mul (row_y1 ?r) (Fin False 2)) (f32_of_int 1280) = Fin False 100"
    "clamp (f32_mul (row_x2 ?r) (Fin False 2)) (f32_of_int 1280) = Fin False 600"
    "clamp (f32_mul (row_y2 ?r) (Fin False 2)) (f32_of_int 1280) = Fin False 400"
    by code_simp+
  then show ?thesis by (simp add: box_of_row_def scenario_row_facts)
qed

lemma scenario_run:
  assumes "2 < length cls" "w = 1280" "h = 960 \<or> h = 1280"
  shows "fst (detectDocLayout
     (stub_env (Ok (stub_session two_input_names
        (Ok [tensor_of_rows [row_of 2 (87/100) 100 50 300 200]]))) cls)
     (blank_image w h) (f32_of_rat (1/2)) fresh_world) =
   Ok [box_of_row cls (blank_image w h)
         (inv_scale False (ScaleFactor_spec (blank_image w h) 640 640) 0)
         (inv_scale False (ScaleFactor_spec (blank_image w h) 640 640) 1)
         (row_of 2 (87/100) 100 50 300 200)]"
proof -
  let ?img = "blank_image w h" and ?t = "f32_of_rat (1/2)"
  let ?rs = "[row_of 2 (87/100) 100 50 300 200]"
  let ?s = "stub_session two_input_names (Ok [tensor_of_rows ?rs])"
  let ?E = "stub_env (Ok ?s) cls"
  let ?sf = "ScaleFactor_spec ?img 640 640"
  let ?st = "\<lparr>shape = [1, 2], tdata = ?sf\<rparr>"
  have n: "two_input_names \<noteq> []" "length two_input_names \<noteq> 3"
    by (simp_all add: two_input_names_def)
  have ne: "\<not> Mat_empty ?img" using assms(2,3) by (auto simp: Mat_empty_blank_image)
  note i = stub_init_runtime[OF n(1), of "Ok [tensor_of_rows ?rs]" cls]
  note p = stub_prepare_tensors[of "Ok ?s" cls ?img]
  note b = build_inputs_other[OF n(2), of ?img stub_image_tensor ?st]
  have r: "Run ?s f [''output''] = Ok (tensor_of_rows ?rs # [])" for f
    by (simp add: stub_session_def)
  have sz: "6 * length ?rs \<le> 2147483647" by simp
  have conv: "\<forall>r \<in> set ?rs. convertible r" by (simp add: scenario_row_facts)
  have c: "DOC_CLASSES ?E = cls" by (simp add: stub_env_def)
  have f: "filter (passes cls ?t) ?rs = ?rs"
    using assms(1) by (simp add: passes_def scenario_row_facts)
  from detect_rows[OF ne i p b r sz conv, of ?t] show ?thesis
    unfolding c f by simp
qed

subsection \<open>The serialisers as renderings\<close>

declare show_digits.simps [simp del]

lemma write_box_eq:
  "write_box dflt cp box json =
     \<lparr>str = str json @ box_text cp 4 box, fixed = True, precision = 4\<rparr>"
  by (simp add: write_box_def box_text_def put_def put_float_def put_int_def std_fixed_def
      setprecision_def Let_def)

lemma str_put [simp]: "str (put t s) = str s @ t"
  by (simp add: put_def)

lemma str_write_boxes:
  "str (write_boxes dflt cp ds json) = str json @ comma_separated (map (box_text cp 4) ds)"
proof (induction ds arbitrary: json)
  case Nil
  then show ?case by simp
next
  case (Cons b rest)
  show ?case
  proof (cases rest)
    case Nil
    then show ?thesis by (simp add: write_box_eq)
  next
    case (Cons c more)
    then have ne: "rest \<noteq> []" by simp
    have "str (write_boxes dflt cp (b # rest) json) =
        str (write_boxes dflt cp rest (put '','' (write_box dflt cp b json)))"
      using ne by (simp add: Let_def)
    also have "\<dots> = str (put '','' (write_box dflt cp b json)) @
        comma_separated (map (box_text cp 4) rest)"
      by (rule Cons.IH)
    also have "\<dots> = str json @ comma_separated (map (box_text cp 4) (b # rest))"
      unfolding Cons by (simp add: write_box_eq)
    finally show ?thesis .
  qed
qed

lemma detectionsToJson_eq:
  \<open>detectionsToJson dflt ds =
     ''{"detections":['' @ comma_separated (map (box_text 2 4) ds) @
     ''],"count":'' @ show_digits (int (length ds)) @ ''}''\<close>
  by (simp add: detectionsToJson_def str_write_boxes put_size_def new_stream_def Let_def)

lemma detectLayout_json_eq:
  \<open>detectLayout_json dflt ds inference_time img =
     ''{"detections":['' @ comma_separated (map (box_text 1 4) ds) @
     ''],"count":'' @ show_digits (int (length ds)) @
     '',"inference_time_ms":'' @ show_int inference_time @
     '',"image_width":'' @ show_int (int (cols img)) @
     '',"image_height":'' @ show_int (int (rows img)) @ ''}''\<close>
  by (simp add: detectLayout_json_def str_write_boxes put_size_def put_int_def new_stream_def
      Let_def)

lemma detectLayoutFromBytes_json_eq:
  \<open>detectLayoutFromBytes_json dflt ds inference_time width height =
     ''{"detections":['' @ comma_separated (map (box_text 1 4) ds) @
     ''],"count":'' @ show_digits (int (length ds)) @
     '',"inference_time_ms":'' @ show_int inference_time @
     '',"image_width":'' @ show_int width @
     '',"image_height":'' @ show_int height @ ''}''\<close>
  by (simp add: detectLayoutFromBytes_json_def str_write_boxes put_size_def put_int_def
      new_stream_def Let_def)

lemma show_digits_are_digits: "set (show_digits n) \<subseteq> set ''0123456789''"
proof (induction n rule: show_digits.induct)
  case (1 n)
  have d: "''0123456789'' ! k \<in> set ''0123456789''" if "k < 10" for k
    using that by (intro nth_mem) simp
  show ?case
  proof (cases "n < 10")
    case True
    then have "nat n < 10" by simp
    from d[OF this] True show ?thesis by (subst show_digits.simps) simp
  next
    case False
    have "nat (n mod 10) < 10" by simp
    from d[OF this] False 1 show ?thesis by (subst show_digits.simps) simp
  qed
qed

lemma length_show_digits:
  "0 < p \<Longrightarrow> n < 10 ^ p \<Longrightarrow> length (show_digits n) \<le> p"
proof (induction n arbitrary: p rule: show_digits.induct)
  case (1 n)
  show ?case
  proof (cases "n < 10")
    case True
    then show ?thesis using "1.prems" by (subst show_digits.simps) simp
  next
    case False
    from "1.prems" obtain q where p: "p = Suc q" by (cases p) auto
    have "q \<noteq> 0" using False "1.prems" p by (cases q) auto
    moreover have "n div 10 < 10 ^ q" using "1.prems"(2) p False
      by simp
    ultimately have "length (show_digits (n div 10)) \<le> q" using "1.IH"[OF False, of q] by simp
    then show ?thesis using False p by (subst show_digits.simps) simp
  qed
qed

lemma show_fixed_decimals:
  assumes "0 < p"
  shows "\<exists>whole frac. show_fixed p (Fin s m) = whole @ ''.'' @ frac \<and> length frac = p \<and>
           set frac \<subseteq> set ''0123456789''"
proof -
  define n where "n = rne (m * 10 ^ p)"
  define frac where "frac = zero_pad p (show_digits (n mod 10 ^ p))"
  have "n mod 10 ^ p < 10 ^ p" by simp
  then have "length (show_digits (n mod 10 ^ p)) \<le> p" using assms by (intro length_show_digits)
  then have l: "length frac = p" by (simp add: frac_def zero_pad_def)
  have d: "set frac \<subseteq> set ''0123456789''"
    using show_digits_are_digits[of "n mod 10 ^ p"] by (auto simp: frac_def zero_pad_def)
  have "show_fixed p (Fin s m) =
      ((if s then ''-'' else []) @ show_digits (n div 10 ^ p)) @ ''.'' @ frac"
    using assms by (simp add: show_fixed_def show_scaled_def n_def frac_def)
  with l d show ?thesis by blast
qed

subsection \<open>A session without inputs\<close>



lemma build_inputs_flag:
  "build_inputs n img it st = Ok (l, feed) \<Longrightarrow> l = (n = 3)"
  by (cases "n = 3") (auto simp: build_inputs_three build_inputs_other)




lemma tensor_of_rows_offsets:
  assumes "k < length rs"
  shows "tdata (tensor_of_rows rs) ! (6 * k + 0) = row_class (rs ! k)"
    "tdata (tensor_of_rows rs) ! (6 * k + 1) = row_score (rs ! k)"
    "tdata (tensor_of_rows rs) ! (6 * k + 2) = row_x1 (rs ! k)"
    "tdata (tensor_of_rows rs) ! (6 * k + 3) = row_y1 (rs ! k)"
    "tdata (tensor_of_rows rs) ! (6 * k + 4) = row_x2 (rs ! k)"
    "tdata (tensor_of_rows rs) ! (6 * k + 5) = row_y2 (rs ! k)"
  using flatten_rows_nth[OF assms, of 0] flatten_rows_nth[OF assms, of 1]
    flatten_rows_nth[OF assms, of 2] flatten_rows_nth[OF assms, of 3]
    flatten_rows_nth[OF assms, of 4] flatten_rows_nth[OF assms, of 5]
  by (simp_all add: tensor_of_rows_def row_values_def)

lemma box_of_row_explicit:
  "box_of_row cls img ix iy =
     (\<lambda>r. \<lparr>x1 = clamp (f32_mul (row_x1 r) ix) (f32_of_int (int (cols img))),
           y1 = clamp (f32_mul (row_y1 r) iy) (f32_of_int (int (rows img))),
           x2 = clamp (f32_mul (row_x2 r) ix) (f32_of_int (int (cols img))),
           y2 = clamp (f32_mul (row_y2 r) iy) (f32_of_int (int (rows img))),
           score = row_score r,
           class_id = row_class_id r,
           class_name = cls ! nat (row_class_id r)\<rparr>)"
  by (rule ext) (simp add: box_of_row_def)

lemma passes_explicit:
  "passes cls t =
     (\<lambda>r. f32_ge (row_score r) t \<and> 0 \<le> row_class_id r \<and> row_class_id r < int (length cls))"
  by (rule ext) (simp add: passes_def)

lemma make_box_dims:
  "rows a = rows b \<Longrightarrow> cols a = cols b \<Longrightarrow>
   make_box cls a t ix iy cid sc p q u v = make_box cls b t ix iy cid sc p q u v"
  by (simp add: make_box_def)

lemma convertible_class_id:
  "convertible r \<Longrightarrow> f32_to_int (row_class r) = Some (row_class_id r)"
  by (auto simp: convertible_def row_class_id_def)


subsection \<open>Rows given by their numbers\<close>

lemma row_of_sel:
  "row_class (row_of c s a b d e) = f32_of_rat c"
  "row_score (row_of c s a b d e) = f32_of_rat s"
  "row_x1 (row_of c s a b d e) = f32_of_rat a"
  "row_y1 (row_of c s a b d e) = f32_of_rat b"
  "row_x2 (row_of c s a b d e) = f32_of_rat d"
  "row_y2 (row_of c s a b d e) = f32_of_rat e"
  by (simp_all add: row_of_def)

lemma row_class_id_row_of:
  "f32_to_int (f32_of_rat c) = Some n \<Longrightarrow> row_class_id (row_of c s a b d e) = n"
  by (simp add: row_class_id_def row_of_def)

lemma convertible_row_of:
  "f32_to_int (f32_of_rat c) = Some n \<Longrightarrow> convertible (row_of c s a b d e)"
  by (simp add: convertible_def row_of_def)

lemma class_values:
  "f32_to_int (f32_of_rat 0) = Some 0" "f32_to_int (f32_of_rat 1) = Some 1"
  "f32_to_int (f32_of_rat 2) = Some 2" "f32_to_int (f32_of_rat 7) = Some 7"
  by code_simp+

lemma score_values:
  "f32_ge (f32_of_rat (87/100)) (f32_of_rat (1/2))"
  "f32_ge (f32_of_rat (9/10)) (f32_of_rat (1/2))"
  "\<not> f32_ge (f32_of_rat (1/10)) (f32_of_rat (1/2))"
  "f32_le f32_zero (f32_of_rat (87/100))"
  "f32_le f32_zero (f32_of_rat (9/10))"
  "f32_le f32_zero (f32_of_rat (1/10))"
  "\<not> f32_le f32_zero (f32_of_rat (- 1/2))"
  by code_simp+

lemma coordinate_values:
  "f32_of_rat 10 = Fin False 10" "f32_of_rat 50 = Fin False 50"
  "f32_of_rat 100 = Fin False 100" "f32_of_rat 200 = Fin False 200"
  "f32_of_rat 300 = Fin False 300"
  by code_simp+

lemma extent_values:
  "f32_of_int 960 = Fin False 960" "f32_of_int 1280 = Fin False 1280"
  using f32_of_int_exact[of 960] f32_of_int_exact[of 1280] by simp_all

lemma clamp_inside:
  "f32_less f32_zero v \<Longrightarrow> f32_le v hi \<Longrightarrow> clamp v hi = v"
  by (cases v; cases hi) (auto simp: clamp_def std_min_def std_max_def f32_zero_def signed_def)

lemma unscaled_values:
  "f32_mul (Fin False 10) f32_one = Fin False 10"
  "f32_mul (Fin False 50) f32_one = Fin False 50" "f32_mul (Fin False 100) f32_one = Fin False 100"
  "f32_mul (Fin False 200) f32_one = Fin False 200" "f32_mul (Fin False 300) f32_one = Fin False 300"
  by code_simp+

lemma doubled_values:
  "f32_mul (Fin False 10) (Fin False 2) = Fin False 20"
  "f32_mul (Fin False 50) (Fin False 2) = Fin False 100"
  "f32_mul (Fin False 100) (Fin False 2) = Fin False 200"
  "f32_mul (Fin False 200) (Fin False 2) = Fin False 400"
  "f32_mul (Fin False 300) (Fin False 2) = Fin False 600"
  by code_simp+

lemma scenario_box_unscaled:
  "box_of_row cls (blank_image 1280 960) f32_one f32_one (row_of 2 (87/100) 100 50 300 200) =
   \<lparr>x1 = Fin False 100, y1 = Fin False 50, x2 = Fin False 300, y2 = Fin False 200,
     score = f32_of_rat (87/100), class_id = 2, class_name = cls ! 2\<rparr>"
  by (simp add: box_of_row_def row_of_sel row_class_id_row_of[OF class_values(3)]
      coordinate_values unscaled_values extent_values clamp_inside f32_zero_def signed_def)

lemma inverse_two_thirds:
  "f32_div f32_one (Fin False (11184811 / 16777216)) = Fin False (3/2)"
  using inv_scale_1280_960(2) by (simp add: inv_scale_def)

lemma box_1_tenth:
  "box_of_row cls (blank_image 1280 1280) (Fin False 2) (Fin False 2)
     (row_of 1 (1/10) 10 10 50 50) =
   \<lparr>x1 = Fin False 20, y1 = Fin False 20, x2 = Fin False 100, y2 = Fin False 100,
     score = f32_of_rat (1/10), class_id = 1, class_name = cls ! 1\<rparr>"
  by (simp add: box_of_row_def row_of_sel row_class_id_row_of[OF class_values(2)]
      coordinate_values doubled_values extent_values clamp_inside f32_zero_def signed_def
      del: f32_mul.simps)


subsection \<open>Further runs and consequences\<close>

lemma one_input_run:
  "detectDocLayout
     (stub_env (Ok (stub_session one_input_name
        (Ok [tensor_of_rows [row_of 0 (9/10) 10 10 50 50]]))) three_classes)
     (blank_image 1280 1280) (f32_of_rat (1/2)) fresh_world =
   (Ok [\<lparr>x1 = Fin False 20, y1 = Fin False 20, x2 = Fin False 100, y2 = Fin False 100,
         score = f32_of_rat (9/10), class_id = 0, class_name = ''class_0''\<rparr>],
    \<lparr>st_session = Some (stub_session one_input_name
        (Ok [tensor_of_rows [row_of 0 (9/10) 10 10 50 50]])),
     st_input_name = Some ''image'',
     st_output_name_0 = Some ''output'', st_output_name_1 = Some ''output'',
     calls = [CreateSession ''model.onnx'', Preprocess (blank_image 1280 1280),
              ToBlob stub_resized,
              RunModel [(''image'', stub_image_tensor),
                        (''scale_factor'',
                         \<lparr>shape = [1, 2], tdata = [Fin False (1/2), Fin False (1/2)]\<rparr>)]
                       [''output'']]\<rparr>)"
proof -
  let ?img = "blank_image 1280 1280" and ?t = "f32_of_rat (1/2)"
  let ?r = "row_of 0 (9/10) 10 10 50 50"
  let ?sf = "[Fin False (1/2), Fin False (1/2)]"
  have ne: "one_input_name \<noteq> []" "\<not> Mat_empty ?img"
    by (simp_all add: one_input_name_def Mat_empty_blank_image)
  have b: "build_inputs (length one_input_name) ?img stub_image_tensor
      \<lparr>shape = [1, 2], tdata = ScaleFactor_spec ?img 640 640\<rparr> =
      Ok (False, [(''image'', stub_image_tensor),
                  (''scale_factor'', \<lparr>shape = [1, 2], tdata = ?sf\<rparr>)])"
    by (simp add: build_inputs_other one_input_name_def ScaleFactor_spec_1280)
  show ?thesis
    using stub_detect_full[OF ne b, of "[tensor_of_rows [?r]]" three_classes ?t]
    by (simp add: parse_doubling_example ScaleFactor_spec_1280 one_input_name_def)
qed


lemma filter_zero_threshold:
  "filter (passes cls f32_zero) rs =
   filter (\<lambda>r. class_in_range cls r \<and> f32_le f32_zero (row_score r)) rs"
  by (induction rs) (simp_all add: passes_zero)

lemma show_fixed_shape:
  assumes "0 < p"
  shows "show_fixed p (Fin s m) =
           (if s then ''-'' else []) @ show_digits (rne (m * 10 ^ p) div 10 ^ p) @ ''.'' @
           zero_pad p (show_digits (rne (m * 10 ^ p) mod 10 ^ p))"
    and "length (zero_pad p (show_digits (rne (m * 10 ^ p) mod 10 ^ p))) = p"
    and "set (zero_pad p (show_digits (rne (m * 10 ^ p) mod 10 ^ p))) \<subseteq> set ''0123456789''"
    and "set (show_digits (rne (m * 10 ^ p) div 10 ^ p)) \<subseteq> set ''0123456789''"
proof -
  define n where "n = rne (m * 10 ^ p)"
  have "n mod 10 ^ p < 10 ^ p" by simp
  then have "length (show_digits (n mod 10 ^ p)) \<le> p" using assms by (intro length_show_digits)
  then show "length (zero_pad p (show_digits (rne (m * 10 ^ p) mod 10 ^ p))) = p"
    by (simp add: n_def zero_pad_def)
  show "set (zero_pad p (show_digits (rne (m * 10 ^ p) mod 10 ^ p))) \<subseteq> set ''0123456789''"
    using show_digits_are_digits[of "n mod 10 ^ p"] by (auto simp: n_def zero_pad_def)
  show "set (show_digits (rne (m * 10 ^ p) div 10 ^ p)) \<subseteq> set ''0123456789''"
    by (rule show_digits_are_digits)
  show "show_fixed p (Fin s m) =
           (if s then ''-'' else []) @ show_digits (rne (m * 10 ^ p) div 10 ^ p) @ ''.'' @
           zero_pad p (show_digits (rne (m * 10 ^ p) mod 10 ^ p))"
    using assms by (simp add: show_fixed_def show_scaled_def)
qed


section \<open>The claims\<close>

text \<open>
  Claim C8. Called with an empty image, the pipeline returns an empty detection list as
  an ordinary result, and the program state is the one it was called in: no session has
  been created and no call to the normaliser, the packer or the model has been logged.
\<close>

theorem empty_image_returns_nothing:
  "Mat_empty img \<Longrightarrow> detectDocLayout E img conf_threshold w = (Ok [], w)"
  by (simp add: detectDocLayout_def)

theorem empty_image_returns_nothing_witness:
  "Mat_empty (blank_image 0 0) \<and>
   detectDocLayout (stub_env (Throws OrtException) three_classes) (blank_image 0 0)
     (f32_of_rat (1/2)) fresh_world = (Ok [], fresh_world)"
proof -
  have h: "Mat_empty (blank_image 0 0)" by (simp add: Mat_empty_def blank_image_def)
  from h empty_image_returns_nothing[OF h] show ?thesis by simp
qed

text \<open>
  Claim C7 says that an unsupported-schema failure, like a failure to load the model or a
  failure of the forward pass, ends in the empty detection list. The pipeline knows no
  such failure: a session declaring a single input is run under the two-input schema, and
  the row it answers with is decoded and returned.
\<close>

theorem one_input_model_counterexample:
  "length (input_names (stub_session one_input_name
      (Ok [tensor_of_rows [row_of 0 (9/10) 10 10 50 50]]))) = 1 \<and>
   fst (detectDocLayout
     (stub_env (Ok (stub_session one_input_name
        (Ok [tensor_of_rows [row_of 0 (9/10) 10 10 50 50]]))) three_classes)
     (blank_image 1280 1280) (f32_of_rat (1/2)) fresh_world) =
   Ok [\<lparr>x1 = Fin False 20, y1 = Fin False 20, x2 = Fin False 100, y2 = Fin False 100,
         score = f32_of_rat (9/10), class_id = 0, class_name = ''class_0''\<rparr>] \<and>
   fst (detectDocLayout
     (stub_env (Ok (stub_session one_input_name
        (Ok [tensor_of_rows [row_of 0 (9/10) 10 10 50 50]]))) three_classes)
     (blank_image 1280 1280) (f32_of_rat (1/2)) fresh_world) \<noteq> Ok []"
  by (simp add: one_input_run) (simp add: stub_session_def one_input_name_def)



text \<open>
  Claim C3. The schema is chosen by the session's declared input count alone. With
  exactly three inputs the tensors submitted are \<open>im_shape\<close> (the height and the width of
  the original image as floats), \<open>image\<close> and \<open>scale_factor\<close> holding \<open>(1.0, 1.0)\<close>, and both
  inverse scales are \<open>1.0\<close>, which leaves every binary32 value as it is. With any other
  count the tensors submitted are \<open>image\<close> and \<open>scale_factor\<close>, the latter holding the scale
  factor the normaliser returned, and the inverse scales are \<open>1 / scale_factor[0]\<close> for the
  x axis and \<open>1 / scale_factor[1]\<close> for the y axis. The pipeline submits exactly these
  tensors, and for an output tensor holding rows it returns, for every row that is kept,
  the box whose coordinates are the row's coordinates multiplied by the inverse scale of
  their axis and clamped to the image. (Rows are taken to hold class values that convert
  to \<open>int\<close>.)
\<close>

theorem schema_follows_input_count:
  "(init_runtime E w = (Ok (s, n, out0), w1) \<longrightarrow> n = length (input_names s)) \<and>
   (build_inputs n img it st = Ok (l, feed) \<longrightarrow> l = (n = 3)) \<and>
   build_inputs 3 img it st =
     Ok (True, [(''im_shape'', \<lparr>shape = [1, 2],
                   tdata = [f32_of_int (int (rows img)), f32_of_int (int (cols img))]\<rparr>),
                (''image'', it),
                (''scale_factor'', \<lparr>shape = [1, 2], tdata = [f32_one, f32_one]\<rparr>)]) \<and>
   inverse_scale True sf k = Ok f32_one \<and>
   (is_binary32 v \<longrightarrow> f32_mul v f32_one = v) \<and>
   (m \<noteq> 3 \<longrightarrow>
      build_inputs m img it st = Ok (False, [(''image'', it), (''scale_factor'', st)])) \<and>
   (prepare_tensors E img w1 = (Ok (sf, it, st), w2) \<longrightarrow>
      st = \<lparr>shape = [1, 2], tdata = take 2 sf\<rparr> \<and> 2 \<le> length sf) \<and>
   (k < length sf \<longrightarrow> inverse_scale False sf k = Ok (f32_div f32_one (sf ! k))) \<and>
   (\<not> Mat_empty img \<and> init_runtime E w = (Ok (s, n, out0), w1) \<and>
    prepare_tensors E img w1 = (Ok (sf, it, st), w2) \<and>
    build_inputs n img it st = Ok (l, feed) \<and> Run s feed [out0] = Ok outs \<longrightarrow>
      detectDocLayout E img t w =
        (parse_output (DOC_CLASSES E) img t l sf outs,
         w2\<lparr>calls := calls w2 @ [RunModel feed [out0]]\<rparr>)) \<and>
   (\<not> Mat_empty img \<and> init_runtime E w = (Ok (s, 3, out0), w1) \<and>
    prepare_tensors E img w1 = (Ok (sf, it, st), w2) \<and>
    Run s [(''im_shape'', \<lparr>shape = [1, 2],
              tdata = [f32_of_int (int (rows img)), f32_of_int (int (cols img))]\<rparr>),
           (''image'', it),
           (''scale_factor'', \<lparr>shape = [1, 2], tdata = [f32_one, f32_one]\<rparr>)] [out0] =
      Ok (tensor_of_rows rs # others) \<and>
    6 * length rs \<le> 2147483647 \<and> (\<forall>r \<in> set rs. convertible r) \<longrightarrow>
      fst (detectDocLayout E img t w) =
        Ok (map (\<lambda>r. \<lparr>x1 = clamp (f32_mul (row_x1 r) f32_one) (f32_of_int (int (cols img))),
                       y1 = clamp (f32_mul (row_y1 r) f32_one) (f32_of_int (int (rows img))),
                       x2 = clamp (f32_mul (row_x2 r) f32_one) (f32_of_int (int (cols img))),
                       y2 = clamp (f32_mul (row_y2 r) f32_one) (f32_of_int (int (rows img))),
                       score = row_score r,
                       class_id = row_class_id r,
                       class_name = DOC_CLASSES E ! nat (row_class_id r)\<rparr>)
              (filter (passes (DOC_CLASSES E) t) rs))) \<and>
   (\<not> Mat_empty img \<and> init_runtime E w = (Ok (s, n, out0), w1) \<and> n \<noteq> 3 \<and>
    prepare_tensors E img w1 = (Ok (sf, it, st), w2) \<and>
    Run s [(''image'', it), (''scale_factor'', st)] [out0] = Ok (tensor_of_rows rs # others) \<and>
    6 * length rs \<le> 2147483647 \<and> (\<forall>r \<in> set rs. convertible r) \<longrightarrow>
      fst (detectDocLayout E img t w) =
        Ok (map (\<lambda>r. \<lparr>x1 = clamp (f32_mul (row_x1 r) (f32_div f32_one (sf ! 0)))
                              (f32_of_int (int (cols img))),
                       y1 = clamp (f32_mul (row_y1 r) (f32_div f32_one (sf ! 1)))
                              (f32_of_int (int (rows img))),
                       x2 = clamp (f32_mul (row_x2 r) (f32_div f32_one (sf ! 0)))
                              (f32_of_int (int (cols img))),
                       y2 = clamp (f32_mul (row_y2 r) (f32_div f32_one (sf ! 1)))
                              (f32_of_int (int (rows img))),
                       score = row_score r,
                       class_id = row_class_id r,
                       class_name = DOC_CLASSES E ! nat (row_class_id r)\<rparr>)
              (filter (passes (DOC_CLASSES E) t) rs)))"
proof (intro conjI impI)
  show "n = length (input_names s)" if "init_runtime E w = (Ok (s, n, out0), w1)"
    using that by (rule init_runtime_num_inputs)
  show "l = (n = 3)" if "build_inputs n img it st = Ok (l, feed)"
    using that by (rule build_inputs_flag)
  show "build_inputs 3 img it st =
     Ok (True, [(''im_shape'', \<lparr>shape = [1, 2],
                   tdata = [f32_of_int (int (rows img)), f32_of_int (int (cols img))]\<rparr>),
                (''image'', it),
                (''scale_factor'', \<lparr>shape = [1, 2], tdata = [f32_one, f32_one]\<rparr>)])"
    by (rule build_inputs_three)
  show "inverse_scale True sf k = Ok f32_one" by (simp add: inverse_scale_def)
  show "f32_mul v f32_one = v" if "is_binary32 v" using that by (rule f32_mul_one)
  show "build_inputs m img it st = Ok (False, [(''image'', it), (''scale_factor'', st)])"
    if "m \<noteq> 3" using that by (rule build_inputs_other)
  show "st = \<lparr>shape = [1, 2], tdata = take 2 sf\<rparr>" "2 \<le> length sf"
    if "prepare_tensors E img w1 = (Ok (sf, it, st), w2)"
    using prepare_tensors_scale_tensor[OF that] by simp_all
  show "inverse_scale False sf k = Ok (f32_div f32_one (sf ! k))" if "k < length sf"
    using that by (simp add: inverse_scale_def)
  show "detectDocLayout E img t w =
        (parse_output (DOC_CLASSES E) img t l sf outs,
         w2\<lparr>calls := calls w2 @ [RunModel feed [out0]]\<rparr>)"
    if "\<not> Mat_empty img \<and> init_runtime E w = (Ok (s, n, out0), w1) \<and>
      prepare_tensors E img w1 = (Ok (sf, it, st), w2) \<and>
      build_inputs n img it st = Ok (l, feed) \<and> Run s feed [out0] = Ok outs"
    using that detect_eq[of img E w s n out0 w1 sf it st w2 l feed outs t] by blast
next
  assume a: "\<not> Mat_empty img \<and> init_runtime E w = (Ok (s, 3, out0), w1) \<and>
    prepare_tensors E img w1 = (Ok (sf, it, st), w2) \<and>
    Run s [(''im_shape'', \<lparr>shape = [1, 2],
              tdata = [f32_of_int (int (rows img)), f32_of_int (int (cols img))]\<rparr>),
           (''image'', it),
           (''scale_factor'', \<lparr>shape = [1, 2], tdata = [f32_one, f32_one]\<rparr>)] [out0] =
      Ok (tensor_of_rows rs # others) \<and>
    6 * length rs \<le> 2147483647 \<and> (\<forall>r \<in> set rs. convertible r)"
  have "fst (detectDocLayout E img t w) =
      Ok (map (box_of_row (DOC_CLASSES E) img (inv_scale True sf 0) (inv_scale True sf 1))
            (filter (passes (DOC_CLASSES E) t) rs))"
    using a detect_rows[of img E w s 3 out0 w1 sf it st w2 True _ rs others t,
        OF _ _ _ build_inputs_three] by blast
  then show "fst (detectDocLayout E img t w) =
        Ok (map (\<lambda>r. \<lparr>x1 = clamp (f32_mul (row_x1 r) f32_one) (f32_of_int (int (cols img))),
                       y1 = clamp (f32_mul (row_y1 r) f32_one) (f32_of_int (int (rows img))),
                       x2 = clamp (f32_mul (row_x2 r) f32_one) (f32_of_int (int (cols img))),
                       y2 = clamp (f32_mul (row_y2 r) f32_one) (f32_of_int (int (rows img))),
                       score = row_score r,
                       class_id = row_class_id r,
                       class_name = DOC_CLASSES E ! nat (row_class_id r)\<rparr>)
              (filter (passes (DOC_CLASSES E) t) rs))"
    unfolding box_of_row_explicit by (simp add: inv_scale_def)
next
  assume a: "\<not> Mat_empty img \<and> init_runtime E w = (Ok (s, n, out0), w1) \<and> n \<noteq> 3 \<and>
    prepare_tensors E img w1 = (Ok (sf, it, st), w2) \<and>
    Run s [(''image'', it), (''scale_factor'', st)] [out0] = Ok (tensor_of_rows rs # others) \<and>
    6 * length rs \<le> 2147483647 \<and> (\<forall>r \<in> set rs. convertible r)"
  then have b: "build_inputs n img it st = Ok (False, [(''image'', it), (''scale_factor'', st)])"
    by (simp add: build_inputs_other)
  have "fst (detectDocLayout E img t w) =
      Ok (map (box_of_row (DOC_CLASSES E) img (inv_scale False sf 0) (inv_scale False sf 1))
            (filter (passes (DOC_CLASSES E) t) rs))"
    using a detect_rows[of img E w s n out0 w1 sf it st w2 False _ rs others t, OF _ _ _ b]
    by blast
  then show "fst (detectDocLayout E img t w) =
        Ok (map (\<lambda>r. \<lparr>x1 = clamp (f32_mul (row_x1 r) (f32_div f32_one (sf ! 0)))
                              (f32_of_int (int (cols img))),
                       y1 = clamp (f32_mul (row_y1 r) (f32_div f32_one (sf ! 1)))
                              (f32_of_int (int (rows img))),
                       x2 = clamp (f32_mul (row_x2 r) (f32_div f32_one (sf ! 0)))
                              (f32_of_int (int (cols img))),
                       y2 = clamp (f32_mul (row_y2 r) (f32_div f32_one (sf ! 1)))
                              (f32_of_int (int (rows img))),
                       score = row_score r,
                       class_id = row_class_id r,
                       class_name = DOC_CLASSES E ! nat (row_class_id r)\<rparr>)
              (filter (passes (DOC_CLASSES E) t) rs))"
    unfolding box_of_row_explicit by (simp add: inv_scale_def)
qed

theorem schema_follows_input_count_witness:
  "detectDocLayout
      (stub_env (Ok (stub_session three_input_names
         (Ok [tensor_of_rows [row_of 2 (87/100) 100 50 300 200]]))) three_classes)
      (blank_image 1280 960) (f32_of_rat (1/2)) fresh_world =
   (Ok [\<lparr>x1 = Fin False 100, y1 = Fin False 50, x2 = Fin False 300, y2 = Fin False 200,
         score = f32_of_rat (87/100), class_id = 2, class_name = ''class_2''\<rparr>],
    \<lparr>st_session = Some (stub_session three_input_names
         (Ok [tensor_of_rows [row_of 2 (87/100) 100 50 300 200]])),
      st_input_name = Some ''im_shape'',
      st_output_name_0 = Some ''output'', st_output_name_1 = Some ''output'',
      calls =
       [CreateSession ''model.onnx'', Preprocess (blank_image 1280 960), ToBlob stub_resized,
        RunModel [(''im_shape'', \<lparr>shape = [1, 2], tdata = [Fin False 960, Fin False 1280]\<rparr>),
                  (''image'', stub_image_tensor),
                  (''scale_factor'', \<lparr>shape = [1, 2], tdata = [f32_one, f32_one]\<rparr>)]
                 [''output'']]\<rparr>) \<and>
   detectDocLayout
      (stub_env (Ok (stub_session two_input_names
         (Ok [tensor_of_rows [row_of 2 (87/100) 100 50 300 200]]))) three_classes)
      (blank_image 1280 960) (f32_of_rat (1/2)) fresh_world =
   (Ok [\<lparr>x1 = Fin False 200, y1 = Fin False 75, x2 = Fin False 600, y2 = Fin False 300,
         score = f32_of_rat (87/100), class_id = 2, class_name = ''class_2''\<rparr>],
    \<lparr>st_session = Some (stub_session two_input_names
         (Ok [tensor_of_rows [row_of 2 (87/100) 100 50 300 200]])),
      st_input_name = Some ''image'',
      st_output_name_0 = Some ''output'', st_output_name_1 = Some ''output'',
      calls =
       [CreateSession ''model.onnx'', Preprocess (blank_image 1280 960), ToBlob stub_resized,
        RunModel [(''image'', stub_image_tensor),
                  (''scale_factor'',
                   \<lparr>shape = [1, 2],
                      tdata = [Fin False (1/2), Fin False (11184811 / 16777216)]\<rparr>)]
                 [''output'']]\<rparr>) \<and>
   inverse_scale False [Fin False (1/2), Fin False (11184811 / 16777216)] 0 = Ok (Fin False 2) \<and>
   inverse_scale False [Fin False (1/2), Fin False (11184811 / 16777216)] 1 =
     Ok (Fin False (3/2)) \<and>
   f32_mul (Fin False 10) f32_one = Fin False 10"
proof -
  let ?img = "blank_image 1280 960" and ?t = "f32_of_rat (1/2)"
  let ?r = "row_of 2 (87/100) 100 50 300 200"
  let ?rs = "[?r]"
  let ?sf = "ScaleFactor_spec ?img 640 640"
  let ?st = "\<lparr>shape = [1, 2], tdata = ?sf\<rparr>"
  let ?w1 = "\<lambda>names s. \<lparr>st_session = Some s, st_input_name = Some (names ! 0),
       st_output_name_0 = Some ''output'', st_output_name_1 = Some ''output'',
       calls = [CreateSession ''model.onnx'']\<rparr>"
  let ?w2 = "\<lambda>names s. (?w1 names s)\<lparr>calls := calls (?w1 names s) @
       [Preprocess ?img, ToBlob stub_resized]\<rparr>"
  let ?s3 = "stub_session three_input_names (Ok [tensor_of_rows ?rs])"
  let ?s2 = "stub_session two_input_names (Ok [tensor_of_rows ?rs])"
  let ?E3 = "stub_env (Ok ?s3) three_classes"
  let ?E2 = "stub_env (Ok ?s2) three_classes"
  let ?feed3 = "[(''im_shape'', \<lparr>shape = [1, 2],
                   tdata = [f32_of_int (int (rows ?img)), f32_of_int (int (cols ?img))]\<rparr>),
                (''image'', stub_image_tensor),
                (''scale_factor'', \<lparr>shape = [1, 2], tdata = [f32_one, f32_one]\<rparr>)]"
  let ?feed2 = "[(''image'', stub_image_tensor), (''scale_factor'', ?st)]"
  note T = schema_follows_input_count
  have ne: "\<not> Mat_empty ?img" by (simp add: Mat_empty_blank_image)
  have n3: "three_input_names \<noteq> []" and l3: "length three_input_names = 3"
    by (simp_all add: three_input_names_def)
  have n2: "two_input_names \<noteq> []" and l2: "length two_input_names \<noteq> 3"
    by (simp_all add: two_input_names_def)
  note i3 = stub_init_runtime[OF n3, of "Ok [tensor_of_rows ?rs]" three_classes, unfolded l3]
  note i2 = stub_init_runtime[OF n2, of "Ok [tensor_of_rows ?rs]" three_classes]
  note p3 = stub_prepare_tensors[of "Ok ?s3" three_classes ?img "?w1 three_input_names ?s3"]
  note p2 = stub_prepare_tensors[of "Ok ?s2" three_classes ?img "?w1 two_input_names ?s2"]
  have r3: "Run ?s3 f [''output''] = Ok (tensor_of_rows ?rs # [])" for f
    by (simp add: stub_session_def)
  have r2: "Run ?s2 f [''output''] = Ok (tensor_of_rows ?rs # [])" for f
    by (simp add: stub_session_def)
  have sz: "6 * length ?rs \<le> 2147483647" by simp
  have conv: "\<forall>r \<in> set ?rs. convertible r" by (simp add: scenario_row_facts)
  have c: "DOC_CLASSES (stub_env x three_classes) = three_classes" for x
    by (simp add: stub_env_def)
  have f: "filter (passes three_classes ?t) ?rs = ?rs"
    by (simp add: passes_def scenario_row_facts three_classes_def)
  have b3: "build_inputs 3 ?img stub_image_tensor ?st = Ok (True, ?feed3)"
    by (rule T[THEN conjunct2, THEN conjunct2, THEN conjunct1])
  have b2: "build_inputs (length two_input_names) ?img stub_image_tensor ?st = Ok (False, ?feed2)"
    by (rule T[THEN conjunct2, THEN conjunct2, THEN conjunct2, THEN conjunct2, THEN conjunct2,
          THEN conjunct1, THEN mp, OF l2])
  note D = T[THEN conjunct2, THEN conjunct2, THEN conjunct2, THEN conjunct2, THEN conjunct2,
      THEN conjunct2, THEN conjunct2, THEN conjunct2]
  have w3: "snd (detectDocLayout ?E3 ?img ?t fresh_world) =
      (?w2 three_input_names ?s3)\<lparr>calls := calls (?w2 three_input_names ?s3) @
         [RunModel ?feed3 [''output'']]\<rparr>"
    using D[THEN conjunct1, THEN mp, OF conjI[OF ne conjI[OF i3 conjI[OF p3 conjI[OF b3 r3]]]],
        of ?t] by simp
  have w2: "snd (detectDocLayout ?E2 ?img ?t fresh_world) =
      (?w2 two_input_names ?s2)\<lparr>calls := calls (?w2 two_input_names ?s2) @
         [RunModel ?feed2 [''output'']]\<rparr>"
    using D[THEN conjunct1, THEN mp, OF conjI[OF ne conjI[OF i2 conjI[OF p2 conjI[OF b2 r2]]]],
        of ?t] by simp
  have "fst (detectDocLayout ?E3 ?img ?t fresh_world) =
      Ok (map (box_of_row (DOC_CLASSES ?E3) ?img f32_one f32_one)
            (filter (passes (DOC_CLASSES ?E3) ?t) ?rs))"
    unfolding box_of_row_explicit
    by (rule D[THEN conjunct2, THEN conjunct1, THEN mp,
          OF conjI[OF ne conjI[OF i3 conjI[OF p3 conjI[OF r3 conjI[OF sz conv]]]]]])
  then have f3: "fst (detectDocLayout ?E3 ?img ?t fresh_world) =
      Ok [\<lparr>x1 = Fin False 100, y1 = Fin False 50, x2 = Fin False 300, y2 = Fin False 200,
         score = f32_of_rat (87/100), class_id = 2, class_name = ''class_2''\<rparr>]"
    unfolding c f by (simp add: scenario_box_unscaled three_classes_def)
  have "fst (detectDocLayout ?E2 ?img ?t fresh_world) =
      Ok (map (box_of_row (DOC_CLASSES ?E2) ?img (f32_div f32_one (?sf ! 0))
                 (f32_div f32_one (?sf ! 1)))
            (filter (passes (DOC_CLASSES ?E2) ?t) ?rs))"
    unfolding box_of_row_explicit
    by (rule D[THEN conjunct2, THEN conjunct2, THEN mp,
          OF conjI[OF ne conjI[OF i2 conjI[OF l2 conjI[OF p2 conjI[OF r2 conjI[OF sz conv]]]]]]])
  then have f2: "fst (detectDocLayout ?E2 ?img ?t fresh_world) =
      Ok [\<lparr>x1 = Fin False 200, y1 = Fin False 75, x2 = Fin False 600, y2 = Fin False 300,
         score = f32_of_rat (87/100), class_id = 2, class_name = ''class_2''\<rparr>]"
    unfolding c f ScaleFactor_spec_1280_960
    by (simp add: inverse_half inverse_two_thirds scenario_box_960 three_classes_def)
  have 1: "detectDocLayout ?E3 ?img ?t fresh_world = (Ok [\<lparr>x1 = Fin False 100, y1 = Fin False 50, x2 = Fin False 300, y2 = Fin False 200,
         score = f32_of_rat (87/100), class_id = 2, class_name = ''class_2''\<rparr>],
    \<lparr>st_session = Some ?s3, st_input_name = Some ''im_shape'',
      st_output_name_0 = Some ''output'', st_output_name_1 = Some ''output'',
      calls =
       [CreateSession ''model.onnx'', Preprocess ?img, ToBlob stub_resized,
        RunModel [(''im_shape'', \<lparr>shape = [1, 2], tdata = [Fin False 960, Fin False 1280]\<rparr>),
                  (''image'', stub_image_tensor),
                  (''scale_factor'', \<lparr>shape = [1, 2], tdata = [f32_one, f32_one]\<rparr>)]
                 [''output'']]\<rparr>)"
    using f3 w3 by (simp add: prod_eq_iff three_input_names_def extent_values)
  have 2: "detectDocLayout ?E2 ?img ?t fresh_world = (Ok [\<lparr>x1 = Fin False 200, y1 = Fin False 75, x2 = Fin False 600, y2 = Fin False 300,
         score = f32_of_rat (87/100), class_id = 2, class_name = ''class_2''\<rparr>],
    \<lparr>st_session = Some ?s2, st_input_name = Some ''image'',
      st_output_name_0 = Some ''output'', st_output_name_1 = Some ''output'',
      calls =
       [CreateSession ''model.onnx'', Preprocess ?img, ToBlob stub_resized,
        RunModel [(''image'', stub_image_tensor),
                  (''scale_factor'',
                   \<lparr>shape = [1, 2],
                      tdata = [Fin False (1/2), Fin False (11184811 / 16777216)]\<rparr>)]
                 [''output'']]\<rparr>)"
    using f2 w2 by (simp add: prod_eq_iff two_input_names_def ScaleFactor_spec_1280_960)
  have 3: "inverse_scale False [Fin False (1/2), Fin False (11184811 / 16777216)] 0 =
      Ok (Fin False 2)"
    using T[where sf = "[Fin False (1/2), Fin False (11184811 / 16777216)]" and k = 0,
        THEN conjunct2, THEN conjunct2, THEN conjunct2, THEN conjunct2, THEN conjunct2,
        THEN conjunct2, THEN conjunct2, THEN conjunct1]
    by (simp add: inverse_half)
  have 4: "inverse_scale False [Fin False (1/2), Fin False (11184811 / 16777216)] 1 =
      Ok (Fin False (3/2))"
    using T[where sf = "[Fin False (1/2), Fin False (11184811 / 16777216)]" and k = 1,
        THEN conjunct2, THEN conjunct2, THEN conjunct2, THEN conjunct2, THEN conjunct2,
        THEN conjunct2, THEN conjunct2, THEN conjunct1]
    by (simp add: inverse_two_thirds)
  have ten: "is_binary32 (Fin False 10)" by code_simp
  have 5: "f32_mul (Fin False 10) f32_one = Fin False 10"
    by (rule T[THEN conjunct2, THEN conjunct2, THEN conjunct2, THEN conjunct2, THEN conjunct1,
          THEN mp]) (rule ten)
  from 1 2 3 4 5 show ?thesis by (intro conjI)
qed




text \<open>
  Claim C2. Row \<open>i\<close> of the output buffer is read as \<open>[class_id, score, x1, y1, x2, y2]\<close>:
  the class from offset \<open>6 i\<close>, converted to an integer by truncation toward zero, the
  score from offset \<open>6 i + 1\<close> and the four coordinates from offsets \<open>6 i + 2\<close> to
  \<open>6 i + 5\<close>. For a tensor that holds rows one after the other, offset \<open>6 k + j\<close> of its
  buffer holds field \<open>j\<close> of row \<open>k\<close>, and the decoder and the pipeline return, for every
  row that is kept and in the order of the rows, the box that has the class and the score
  of the row and its four coordinates, each multiplied by the inverse scale of its axis
  and clamped. (Where the class value does not convert to \<open>int\<close> the behaviour is
  undefined; rows are taken to hold class values that convert.)
\<close>

theorem rows_are_class_score_box:
  "(0 \<le> i \<and> i * 6 + 5 \<le> 2147483647 \<and> nat (i * 6 + 5) < length d \<longrightarrow>
      decode_row cls img t ix iy d i =
        (case f32_to_int (d ! nat (i * 6 + 0)) of
           None \<Rightarrow> Undefined
         | Some cid \<Rightarrow>
             Ok (make_box cls img t ix iy cid (d ! nat (i * 6 + 1)) (d ! nat (i * 6 + 2))
                   (d ! nat (i * 6 + 3)) (d ! nat (i * 6 + 4)) (d ! nat (i * 6 + 5))))) \<and>
   (f32_to_int (Fin s m) = Some n \<and> 0 \<le> m \<longrightarrow>
      n = (if 0 \<le> signed s m then \<lfloor>signed s m\<rfloor> else \<lceil>signed s m\<rceil>)) \<and>
   (k < length rs \<longrightarrow>
      tdata (tensor_of_rows rs) ! (6 * k + 0) = row_class (rs ! k) \<and>
      tdata (tensor_of_rows rs) ! (6 * k + 1) = row_score (rs ! k) \<and>
      tdata (tensor_of_rows rs) ! (6 * k + 2) = row_x1 (rs ! k) \<and>
      tdata (tensor_of_rows rs) ! (6 * k + 3) = row_y1 (rs ! k) \<and>
      tdata (tensor_of_rows rs) ! (6 * k + 4) = row_x2 (rs ! k) \<and>
      tdata (tensor_of_rows rs) ! (6 * k + 5) = row_y2 (rs ! k)) \<and>
   (convertible r \<longrightarrow> f32_to_int (row_class r) = Some (row_class_id r)) \<and>
   (6 * length rs \<le> 2147483647 \<and> (\<forall>r \<in> set rs. convertible r) \<and> (l \<or> 2 \<le> length sf) \<longrightarrow>
      parse_output cls img t l sf (tensor_of_rows rs # others) =
        Ok (map (\<lambda>r. \<lparr>x1 = clamp (f32_mul (row_x1 r) (inv_scale l sf 0))
                              (f32_of_int (int (cols img))),
                       y1 = clamp (f32_mul (row_y1 r) (inv_scale l sf 1))
                              (f32_of_int (int (rows img))),
                       x2 = clamp (f32_mul (row_x2 r) (inv_scale l sf 0))
                              (f32_of_int (int (cols img))),
                       y2 = clamp (f32_mul (row_y2 r) (inv_scale l sf 1))
                              (f32_of_int (int (rows img))),
                       score = row_score r,
                       class_id = row_class_id r,
                       class_name = cls ! nat (row_class_id r)\<rparr>)
              (filter (\<lambda>r. f32_ge (row_score r) t \<and> 0 \<le> row_class_id r \<and>
                            row_class_id r < int (length cls)) rs))) \<and>
   (\<not> Mat_empty img \<and> init_runtime E w = (Ok (s', n', out0), w1) \<and>
    prepare_tensors E img w1 = (Ok (sf, it, st), w2) \<and>
    build_inputs n' img it st = Ok (l, feed) \<and>
    Run s' feed [out0] = Ok (tensor_of_rows rs # others) \<and>
    6 * length rs \<le> 2147483647 \<and> (\<forall>r \<in> set rs. convertible r) \<longrightarrow>
      fst (detectDocLayout E img t w) =
        Ok (map (\<lambda>r. \<lparr>x1 = clamp (f32_mul (row_x1 r) (inv_scale l sf 0))
                              (f32_of_int (int (cols img))),
                       y1 = clamp (f32_mul (row_y1 r) (inv_scale l sf 1))
                              (f32_of_int (int (rows img))),
                       x2 = clamp (f32_mul (row_x2 r) (inv_scale l sf 0))
                              (f32_of_int (int (cols img))),
                       y2 = clamp (f32_mul (row_y2 r) (inv_scale l sf 1))
                              (f32_of_int (int (rows img))),
                       score = row_score r,
                       class_id = row_class_id r,
                       class_name = DOC_CLASSES E ! nat (row_class_id r)\<rparr>)
              (filter (\<lambda>r. f32_ge (row_score r) t \<and> 0 \<le> row_class_id r \<and>
                            row_class_id r < int (length (DOC_CLASSES E))) rs)))"
proof (intro conjI impI)
  assume "0 \<le> i \<and> i * 6 + 5 \<le> 2147483647 \<and> nat (i * 6 + 5) < length d"
  then show "decode_row cls img t ix iy d i =
        (case f32_to_int (d ! nat (i * 6 + 0)) of
           None \<Rightarrow> Undefined
         | Some cid \<Rightarrow>
             Ok (make_box cls img t ix iy cid (d ! nat (i * 6 + 1)) (d ! nat (i * 6 + 2))
                   (d ! nat (i * 6 + 3)) (d ! nat (i * 6 + 4)) (d ! nat (i * 6 + 5))))"
    using decode_row_offsets[of i d cls img t ix iy] by blast
next
  assume "f32_to_int (Fin s m) = Some n \<and> 0 \<le> m"
  then show "n = (if 0 \<le> signed s m then \<lfloor>signed s m\<rfloor> else \<lceil>signed s m\<rceil>)"
    using trunc_toward_zero[of s m n] by blast
next
  assume k: "k < length rs"
  show "tdata (tensor_of_rows rs) ! (6 * k + 0) = row_class (rs ! k)"
    "tdata (tensor_of_rows rs) ! (6 * k + 1) = row_score (rs ! k)"
    "tdata (tensor_of_rows rs) ! (6 * k + 2) = row_x1 (rs ! k)"
    "tdata (tensor_of_rows rs) ! (6 * k + 3) = row_y1 (rs ! k)"
    "tdata (tensor_of_rows rs) ! (6 * k + 4) = row_x2 (rs ! k)"
    "tdata (tensor_of_rows rs) ! (6 * k + 5) = row_y2 (rs ! k)"
    by (rule tensor_of_rows_offsets[OF k])+
next
  show "f32_to_int (row_class r) = Some (row_class_id r)" if "convertible r"
    using that by (rule convertible_class_id)
next
  assume "6 * length rs \<le> 2147483647 \<and> (\<forall>r \<in> set rs. convertible r) \<and> (l \<or> 2 \<le> length sf)"
  then show "parse_output cls img t l sf (tensor_of_rows rs # others) =
        Ok (map (\<lambda>r. \<lparr>x1 = clamp (f32_mul (row_x1 r) (inv_scale l sf 0))
                              (f32_of_int (int (cols img))),
                       y1 = clamp (f32_mul (row_y1 r) (inv_scale l sf 1))
                              (f32_of_int (int (rows img))),
                       x2 = clamp (f32_mul (row_x2 r) (inv_scale l sf 0))
                              (f32_of_int (int (cols img))),
                       y2 = clamp (f32_mul (row_y2 r) (inv_scale l sf 1))
                              (f32_of_int (int (rows img))),
                       score = row_score r,
                       class_id = row_class_id r,
                       class_name = cls ! nat (row_class_id r)\<rparr>)
              (filter (\<lambda>r. f32_ge (row_score r) t \<and> 0 \<le> row_class_id r \<and>
                            row_class_id r < int (length cls)) rs))"
    using parse_output_filter[of rs l sf cls img t others]
    unfolding box_of_row_explicit passes_explicit by blast
next
  assume "\<not> Mat_empty img \<and> init_runtime E w = (Ok (s', n', out0), w1) \<and>
    prepare_tensors E img w1 = (Ok (sf, it, st), w2) \<and>
    build_inputs n' img it st = Ok (l, feed) \<and>
    Run s' feed [out0] = Ok (tensor_of_rows rs # others) \<and>
    6 * length rs \<le> 2147483647 \<and> (\<forall>r \<in> set rs. convertible r)"
  then show "fst (detectDocLayout E img t w) =
        Ok (map (\<lambda>r. \<lparr>x1 = clamp (f32_mul (row_x1 r) (inv_scale l sf 0))
                              (f32_of_int (int (cols img))),
                       y1 = clamp (f32_mul (row_y1 r) (inv_scale l sf 1))
                              (f32_of_int (int (rows img))),
                       x2 = clamp (f32_mul (row_x2 r) (inv_scale l sf 0))
                              (f32_of_int (int (cols img))),
                       y2 = clamp (f32_mul (row_y2 r) (inv_scale l sf 1))
                              (f32_of_int (int (rows img))),
                       score = row_score r,
                       class_id = row_class_id r,
                       class_name = DOC_CLASSES E ! nat (row_class_id r)\<rparr>)
              (filter (\<lambda>r. f32_ge (row_score r) t \<and> 0 \<le> row_class_id r \<and>
                            row_class_id r < int (length (DOC_CLASSES E))) rs))"
    using detect_rows[of img E w s' n' out0 w1 sf it st w2 l feed rs others t]
    unfolding box_of_row_explicit passes_explicit by blast
qed

theorem rows_are_class_score_box_witness:
  "fst (detectDocLayout
     (stub_env (Ok (stub_session three_input_names
        (Ok [tensor_of_rows [row_of 2 (87/100) 100 50 300 200,
                             row_of 0 (9/10) 300 10 100 50]]))) three_classes)
     (blank_image 1280 960) (f32_of_rat (1/2)) fresh_world) =
   Ok [\<lparr>x1 = Fin False 100, y1 = Fin False 50, x2 = Fin False 300, y2 = Fin False 200,
        score = f32_of_rat (87/100), class_id = 2, class_name = ''class_2''\<rparr>,
       \<lparr>x1 = Fin False 300, y1 = Fin False 10, x2 = Fin False 100, y2 = Fin False 50,
        score = f32_of_rat (9/10), class_id = 0, class_name = ''class_0''\<rparr>] \<and>
   tdata (tensor_of_rows [row_of 2 (87/100) 100 50 300 200, row_of 0 (9/10) 300 10 100 50]) ! 7 =
     f32_of_rat (9/10) \<and>
   tdata (tensor_of_rows [row_of 2 (87/100) 100 50 300 200, row_of 0 (9/10) 300 10 100 50]) ! 8 =
     Fin False 300 \<and>
   tdata (tensor_of_rows [row_of 2 (87/100) 100 50 300 200, row_of 0 (9/10) 300 10 100 50]) ! 11 =
     Fin False 50 \<and>
   decode_row three_classes (blank_image 1280 1280) (f32_of_rat (1/2)) (Fin False 2)
     (Fin False 2)
     [Fin False 2, f32_of_rat (87/100), Fin False 100, Fin False 50, Fin False 300,
      Fin False 200] 0 =
   Ok (Some \<lparr>x1 = Fin False 200, y1 = Fin False 100, x2 = Fin False 600, y2 = Fin False 400,
        score = f32_of_rat (87/100), class_id = 2, class_name = ''class_2''\<rparr>) \<and>
   f32_to_int (Fin True (5/2)) = Some (- 2) \<and> \<lceil>signed True (5/2)\<rceil> = - 2"
proof -
  let ?img = "blank_image 1280 960" and ?t = "f32_of_rat (1/2)"
  let ?r1 = "row_of 2 (87/100) 100 50 300 200" and ?r2 = "row_of 0 (9/10) 300 10 100 50"
  let ?rs = "[?r1, ?r2]"
  let ?s = "stub_session three_input_names (Ok [tensor_of_rows ?rs])"
  let ?E = "stub_env (Ok ?s) three_classes"
  let ?sf = "ScaleFactor_spec ?img 640 640"
  let ?st = "\<lparr>shape = [1, 2], tdata = ?sf\<rparr>"
  let ?d = "[Fin False 2, f32_of_rat (87/100), Fin False 100, Fin False 50, Fin False 300,
      Fin False 200]"
  note T = rows_are_class_score_box
  have n: "three_input_names \<noteq> []" "length three_input_names = 3"
    by (simp_all add: three_input_names_def)
  have ne: "\<not> Mat_empty ?img" by (simp add: Mat_empty_blank_image)
  note i = stub_init_runtime[OF n(1), of "Ok [tensor_of_rows ?rs]" three_classes]
  note p = stub_prepare_tensors[of "Ok ?s" three_classes ?img]
  note b = build_inputs_three[of ?img stub_image_tensor ?st, folded n(2)]
  have r: "Run ?s f [''output''] = Ok (tensor_of_rows ?rs # [])" for f
    by (simp add: stub_session_def)
  have sz: "6 * length ?rs \<le> 2147483647" by simp
  have conv: "\<forall>r \<in> set ?rs. convertible r"
    by (simp add: convertible_row_of[OF class_values(3)] convertible_row_of[OF class_values(1)])
  have c: "DOC_CLASSES ?E = three_classes" by (simp add: stub_env_def)
  note ids = row_class_id_row_of[OF class_values(3)] row_class_id_row_of[OF class_values(1)]
  have "fst (detectDocLayout ?E ?img ?t fresh_world) =
        Ok (map (\<lambda>r. \<lparr>x1 = clamp (f32_mul (row_x1 r) (inv_scale True ?sf 0))
                              (f32_of_int (int (cols ?img))),
                       y1 = clamp (f32_mul (row_y1 r) (inv_scale True ?sf 1))
                              (f32_of_int (int (rows ?img))),
                       x2 = clamp (f32_mul (row_x2 r) (inv_scale True ?sf 0))
                              (f32_of_int (int (cols ?img))),
                       y2 = clamp (f32_mul (row_y2 r) (inv_scale True ?sf 1))
                              (f32_of_int (int (rows ?img))),
                       score = row_score r,
                       class_id = row_class_id r,
                       class_name = DOC_CLASSES ?E ! nat (row_class_id r)\<rparr>)
              (filter (\<lambda>r. f32_ge (row_score r) ?t \<and> 0 \<le> row_class_id r \<and>
                            row_class_id r < int (length (DOC_CLASSES ?E))) ?rs))"
    by (rule T[THEN conjunct2, THEN conjunct2, THEN conjunct2, THEN conjunct2, THEN conjunct2,
          THEN mp, OF conjI[OF ne conjI[OF i conjI[OF p conjI[OF b conjI[OF r conjI[OF sz conv]]]]]]])
  then have 1: "fst (detectDocLayout ?E ?img ?t fresh_world) =
     Ok [\<lparr>x1 = Fin False 100, y1 = Fin False 50, x2 = Fin False 300, y2 = Fin False 200,
        score = f32_of_rat (87/100), class_id = 2, class_name = ''class_2''\<rparr>,
       \<lparr>x1 = Fin False 300, y1 = Fin False 10, x2 = Fin False 100, y2 = Fin False 50,
        score = f32_of_rat (9/10), class_id = 0, class_name = ''class_0''\<rparr>]"
    unfolding c
    by (simp add: ids row_of_sel score_values coordinate_values unscaled_values extent_values
        inv_scale_def clamp_inside f32_zero_def signed_def three_classes_def)
  have k: "1 < length ?rs" by simp
  note o = T[where k = 1 and rs = ?rs, THEN conjunct2, THEN conjunct2, THEN conjunct1, THEN mp, OF k]
  from o have 2: "tdata (tensor_of_rows ?rs) ! 7 = f32_of_rat (9/10)"
    "tdata (tensor_of_rows ?rs) ! 8 = Fin False 300"
    "tdata (tensor_of_rows ?rs) ! 11 = Fin False 50"
    by (simp_all add: row_of_sel coordinate_values)
  have h: "(0::int) \<le> 0 \<and> (0::int) * 6 + 5 \<le> 2147483647 \<and> nat (0 * 6 + 5) < length ?d"
    by simp
  have ci: "f32_to_int (Fin False 2) = Some 2" by (simp add: f32_to_int_def)
  have 3: "decode_row three_classes (blank_image 1280 1280) ?t (Fin False 2) (Fin False 2) ?d 0 =
   Ok (Some \<lparr>x1 = Fin False 200, y1 = Fin False 100, x2 = Fin False 600, y2 = Fin False 400,
        score = f32_of_rat (87/100), class_id = 2, class_name = ''class_2''\<rparr>)"
    using T[where i = 0 and d = ?d and cls = three_classes
        and img = "blank_image 1280 1280" and t = ?t and ix = "Fin False 2"
        and iy = "Fin False 2", THEN conjunct1, THEN mp, OF h]
    by (simp add: ci make_box_def score_values doubled_values extent_values clamp_inside
        f32_zero_def signed_def three_classes_def del: f32_mul.simps)
  have t: "f32_to_int (Fin True (5/2)) = Some (- 2)" by code_simp
  have "(- 2 :: int) = (if 0 \<le> signed True (5/2) then \<lfloor>signed True (5/2)\<rfloor>
        else \<lceil>signed True (5/2)\<rceil>)"
    by (rule T[THEN conjunct2, THEN conjunct1, THEN mp]) (simp add: t)
  then have 4: "\<lceil>signed True (5/2)\<rceil> = - 2" by (simp add: signed_def split: if_splits)
  from 1 2 3 t 4 show ?thesis by (intro conjI)
qed

text \<open>
  Claim C6. A row yields a box exactly when its score is at least the threshold and its
  class index is at least zero and below the size of the class table. A row that fails
  either test is skipped without any error: decoding the row is an ordinary result, and
  the decoder and the pipeline return the boxes of the rows that pass, in their order.
  (Rows are taken to hold class values that convert to \<open>int\<close>.)
\<close>

theorem rows_kept_iff_score_and_class:
  "(make_box cls img t ix iy cid sc a b c e \<noteq> None \<longleftrightarrow>
      f32_ge sc t \<and> 0 \<le> cid \<and> cid < int (length cls)) \<and>
   (k < length rs \<and> 6 * length rs \<le> 2147483647 \<and> convertible (rs ! k) \<longrightarrow>
      decode_row cls img t ix iy (flatten_rows rs) (int k) =
        Ok (if passes cls t (rs ! k) then Some (box_of_row cls img ix iy (rs ! k)) else None)) \<and>
   (6 * length rs \<le> 2147483647 \<and> (\<forall>r \<in> set rs. convertible r) \<and> (l \<or> 2 \<le> length sf) \<longrightarrow>
      parse_output cls img t l sf (tensor_of_rows rs # others) =
        Ok (map (box_of_row cls img (inv_scale l sf 0) (inv_scale l sf 1))
              (filter (passes cls t) rs))) \<and>
   (\<not> Mat_empty img \<and> init_runtime E w = (Ok (s, n, out0), w1) \<and>
    prepare_tensors E img w1 = (Ok (sf, it, st), w2) \<and>
    build_inputs n img it st = Ok (l, feed) \<and>
    Run s feed [out0] = Ok (tensor_of_rows rs # others) \<and>
    6 * length rs \<le> 2147483647 \<and> (\<forall>r \<in> set rs. convertible r) \<longrightarrow>
      fst (detectDocLayout E img t w) =
        Ok (map (box_of_row (DOC_CLASSES E) img (inv_scale l sf 0) (inv_scale l sf 1))
              (filter (passes (DOC_CLASSES E) t) rs)))"
proof (intro conjI impI)
  show "make_box cls img t ix iy cid sc a b c e \<noteq> None \<longleftrightarrow>
      f32_ge sc t \<and> 0 \<le> cid \<and> cid < int (length cls)"
    by (rule make_box_emits_iff)
next
  assume "k < length rs \<and> 6 * length rs \<le> 2147483647 \<and> convertible (rs ! k)"
  then show "decode_row cls img t ix iy (flatten_rows rs) (int k) =
        Ok (if passes cls t (rs ! k) then Some (box_of_row cls img ix iy (rs ! k)) else None)"
    using decode_row_flatten_rows[of k rs cls img t ix iy] by (simp add: row_box_passes)
next
  assume "6 * length rs \<le> 2147483647 \<and> (\<forall>r \<in> set rs. convertible r) \<and> (l \<or> 2 \<le> length sf)"
  then show "parse_output cls img t l sf (tensor_of_rows rs # others) =
        Ok (map (box_of_row cls img (inv_scale l sf 0) (inv_scale l sf 1))
              (filter (passes cls t) rs))"
    using parse_output_filter[of rs l sf cls img t others] by blast
next
  assume "\<not> Mat_empty img \<and> init_runtime E w = (Ok (s, n, out0), w1) \<and>
    prepare_tensors E img w1 = (Ok (sf, it, st), w2) \<and>
    build_inputs n img it st = Ok (l, feed) \<and>
    Run s feed [out0] = Ok (tensor_of_rows rs # others) \<and>
    6 * length rs \<le> 2147483647 \<and> (\<forall>r \<in> set rs. convertible r)"
  then show "fst (detectDocLayout E img t w) =
        Ok (map (box_of_row (DOC_CLASSES E) img (inv_scale l sf 0) (inv_scale l sf 1))
              (filter (passes (DOC_CLASSES E) t) rs))"
    using detect_rows[of img E w s n out0 w1 sf it st w2 l feed rs others t] by blast
qed

theorem rows_kept_iff_score_and_class_witness:
  "fst (detectDocLayout
     (stub_env (Ok (stub_session two_input_names
        (Ok [tensor_of_rows [row_of 2 (87/100) 100 50 300 200,
                             row_of 7 (9/10) 10 10 50 50,
                             row_of 1 (1/10) 10 10 50 50]]))) three_classes)
     (blank_image 1280 1280) (f32_of_rat (1/2)) fresh_world) =
   Ok [\<lparr>x1 = Fin False 200, y1 = Fin False 100, x2 = Fin False 600, y2 = Fin False 400,
        score = f32_of_rat (87/100), class_id = 2, class_name = ''class_2''\<rparr>]"
proof -
  let ?img = "blank_image 1280 1280" and ?t = "f32_of_rat (1/2)"
  let ?rs = "[row_of 2 (87/100) 100 50 300 200, row_of 7 (9/10) 10 10 50 50,
              row_of 1 (1/10) 10 10 50 50]"
  let ?s = "stub_session two_input_names (Ok [tensor_of_rows ?rs])"
  let ?E = "stub_env (Ok ?s) three_classes"
  let ?sf = "ScaleFactor_spec ?img 640 640"
  let ?st = "\<lparr>shape = [1, 2], tdata = ?sf\<rparr>"
  have n: "two_input_names \<noteq> []" "length two_input_names \<noteq> 3"
    by (simp_all add: two_input_names_def)
  have ne: "\<not> Mat_empty ?img" by (simp add: Mat_empty_blank_image)
  note i = stub_init_runtime[OF n(1), of "Ok [tensor_of_rows ?rs]" three_classes]
  note p = stub_prepare_tensors[of "Ok ?s" three_classes ?img]
  note b = build_inputs_other[OF n(2), of ?img stub_image_tensor ?st]
  have r: "Run ?s f [''output''] = Ok (tensor_of_rows ?rs # [])" for f
    by (simp add: stub_session_def)
  have sz: "6 * length ?rs \<le> 2147483647" by simp
  have conv: "\<forall>r \<in> set ?rs. convertible r" by code_simp
  have c: "DOC_CLASSES ?E = three_classes" by (simp add: stub_env_def)
  have f: "filter (passes three_classes ?t) ?rs = [row_of 2 (87/100) 100 50 300 200]"
    by code_simp
  have "box_of_row three_classes \<lparr>rows = 1280, cols = 1280, pixels = []\<rparr> (Fin False 2)
      (Fin False 2) (row_of 2 (87/100) 100 50 300 200) =
      \<lparr>x1 = Fin False 200, y1 = Fin False 100, x2 = Fin False 600, y2 = Fin False 400,
        score = f32_of_rat (87/100), class_id = 2, class_name = ''class_2''\<rparr>"
    by code_simp
  then have bx: "box_of_row three_classes ?img (Fin False 2)
      (Fin False 2) (row_of 2 (87/100) 100 50 300 200) =
      \<lparr>x1 = Fin False 200, y1 = Fin False 100, x2 = Fin False 600, y2 = Fin False 400,
        score = f32_of_rat (87/100), class_id = 2, class_name = ''class_2''\<rparr>"
    using box_of_row_dims[of ?img "\<lparr>rows = 1280, cols = 1280, pixels = []\<rparr>"] by simp
  have "fst (detectDocLayout ?E ?img ?t fresh_world) =
      Ok (map (box_of_row (DOC_CLASSES ?E) ?img (inv_scale False ?sf 0) (inv_scale False ?sf 1))
            (filter (passes (DOC_CLASSES ?E) ?t) ?rs))"
    by (rule rows_kept_iff_score_and_class[THEN conjunct2, THEN conjunct2, THEN conjunct2,
          THEN mp, OF conjI[OF ne conjI[OF i conjI[OF p conjI[OF b conjI[OF r conjI[OF sz conv]]]]]]])
  then show ?thesis
    unfolding c f inv_scale_1280 by (simp add: bx)
qed

text \<open>
  Claim C9 says that with a threshold of zero every row whose class is in range appears in
  the output, for every output tensor. A row with a negative score fails the comparison
  \<open>score >= conf_threshold\<close> and is skipped although its class is in range.
\<close>

theorem negative_score_dropped_counterexample:
  "class_in_range three_classes (row_of 0 (- 1/2) 10 10 50 50) \<and>
   fst (detectDocLayout
     (stub_env (Ok (stub_session three_input_names
        (Ok [tensor_of_rows [row_of 0 (- 1/2) 10 10 50 50]]))) three_classes)
     (blank_image 640 480) f32_zero fresh_world) = Ok []"
proof -
  let ?img = "blank_image 640 480"
  let ?rs = "[row_of 0 (- 1/2) 10 10 50 50]"
  let ?s = "stub_session three_input_names (Ok [tensor_of_rows ?rs])"
  let ?E = "stub_env (Ok ?s) three_classes"
  let ?sf = "ScaleFactor_spec ?img 640 640"
  let ?st = "\<lparr>shape = [1, 2], tdata = ?sf\<rparr>"
  have n: "three_input_names \<noteq> []" "length three_input_names = 3"
    by (simp_all add: three_input_names_def)
  have ne: "\<not> Mat_empty ?img" by (simp add: Mat_empty_blank_image)
  note i = stub_init_runtime[OF n(1), of "Ok [tensor_of_rows ?rs]" three_classes]
  note p = stub_prepare_tensors[of "Ok ?s" three_classes ?img]
  note b = build_inputs_three[of ?img stub_image_tensor ?st, folded n(2)]
  have r: "Run ?s f [''output''] = Ok (tensor_of_rows ?rs # [])" for f
    by (simp add: stub_session_def)
  have sz: "6 * length ?rs \<le> 2147483647" by simp
  have conv: "\<forall>r \<in> set ?rs. convertible r" by code_simp
  have c: "DOC_CLASSES ?E = three_classes" by (simp add: stub_env_def)
  have f: "filter (passes three_classes f32_zero) ?rs = []" by code_simp
  have 1: "class_in_range three_classes (row_of 0 (- 1/2) 10 10 50 50)" by code_simp
  from detect_rows[OF ne i p b r sz conv, of f32_zero] have
    2: "fst (detectDocLayout ?E ?img f32_zero fresh_world) = Ok []"
    unfolding c f by simp
  from 1 2 show ?thesis by simp
qed

text \<open>
  Claim C9, as the code has it. With a threshold of zero a row is kept exactly when its
  class is in range and its score is at least zero (so neither negative nor a NaN). For
  every output tensor the output holds the boxes of exactly those rows, once each and in
  the order of the rows: nothing is sorted. When every score of the tensor is at least
  zero, these are the rows whose class is in range. (Rows are taken to hold class values
  that convert to \<open>int\<close>.)
\<close>

theorem zero_threshold_keeps_in_range_rows:
  "(passes cls f32_zero r \<longleftrightarrow> class_in_range cls r \<and> f32_le f32_zero (row_score r)) \<and>
   (6 * length rs \<le> 2147483647 \<and> (\<forall>r \<in> set rs. convertible r) \<and> (l \<or> 2 \<le> length sf) \<longrightarrow>
      parse_output cls img f32_zero l sf (tensor_of_rows rs # others) =
        Ok (map (box_of_row cls img (inv_scale l sf 0) (inv_scale l sf 1))
              (filter (\<lambda>r. class_in_range cls r \<and> f32_le f32_zero (row_score r)) rs))) \<and>
   (\<not> Mat_empty img \<and> init_runtime E w = (Ok (s, n, out0), w1) \<and>
    prepare_tensors E img w1 = (Ok (sf, it, st), w2) \<and>
    build_inputs n img it st = Ok (l, feed) \<and>
    Run s feed [out0] = Ok (tensor_of_rows rs # others) \<and>
    6 * length rs \<le> 2147483647 \<and> (\<forall>r \<in> set rs. convertible r) \<longrightarrow>
      fst (detectDocLayout E img f32_zero w) =
        Ok (map (box_of_row (DOC_CLASSES E) img (inv_scale l sf 0) (inv_scale l sf 1))
              (filter (\<lambda>r. class_in_range (DOC_CLASSES E) r \<and> f32_le f32_zero (row_score r))
                 rs))) \<and>
   (\<not> Mat_empty img \<and> init_runtime E w = (Ok (s, n, out0), w1) \<and>
    prepare_tensors E img w1 = (Ok (sf, it, st), w2) \<and>
    build_inputs n img it st = Ok (l, feed) \<and>
    Run s feed [out0] = Ok (tensor_of_rows rs # others) \<and>
    6 * length rs \<le> 2147483647 \<and> (\<forall>r \<in> set rs. convertible r) \<and>
    (\<forall>r \<in> set rs. f32_le f32_zero (row_score r)) \<longrightarrow>
      fst (detectDocLayout E img f32_zero w) =
        Ok (map (box_of_row (DOC_CLASSES E) img (inv_scale l sf 0) (inv_scale l sf 1))
              (filter (class_in_range (DOC_CLASSES E)) rs)))"
proof (intro conjI impI)
  show "passes cls f32_zero r \<longleftrightarrow> class_in_range cls r \<and> f32_le f32_zero (row_score r)"
    by (rule passes_zero)
next
  assume a: "6 * length rs \<le> 2147483647 \<and> (\<forall>r \<in> set rs. convertible r) \<and>
    (l \<or> 2 \<le> length sf)"
  then show "parse_output cls img f32_zero l sf (tensor_of_rows rs # others) =
        Ok (map (box_of_row cls img (inv_scale l sf 0) (inv_scale l sf 1))
              (filter (\<lambda>r. class_in_range cls r \<and> f32_le f32_zero (row_score r)) rs))"
    using parse_output_filter[of rs l sf cls img f32_zero others]
    unfolding filter_zero_threshold by blast
next
  assume a: "\<not> Mat_empty img \<and> init_runtime E w = (Ok (s, n, out0), w1) \<and>
    prepare_tensors E img w1 = (Ok (sf, it, st), w2) \<and>
    build_inputs n img it st = Ok (l, feed) \<and>
    Run s feed [out0] = Ok (tensor_of_rows rs # others) \<and>
    6 * length rs \<le> 2147483647 \<and> (\<forall>r \<in> set rs. convertible r)"
  then show "fst (detectDocLayout E img f32_zero w) =
        Ok (map (box_of_row (DOC_CLASSES E) img (inv_scale l sf 0) (inv_scale l sf 1))
              (filter (\<lambda>r. class_in_range (DOC_CLASSES E) r \<and> f32_le f32_zero (row_score r))
                 rs))"
    using detect_rows[of img E w s n out0 w1 sf it st w2 l feed rs others f32_zero]
    unfolding filter_zero_threshold by blast
next
  assume a: "\<not> Mat_empty img \<and> init_runtime E w = (Ok (s, n, out0), w1) \<and>
    prepare_tensors E img w1 = (Ok (sf, it, st), w2) \<and>
    build_inputs n img it st = Ok (l, feed) \<and>
    Run s feed [out0] = Ok (tensor_of_rows rs # others) \<and>
    6 * length rs \<le> 2147483647 \<and> (\<forall>r \<in> set rs. convertible r) \<and>
    (\<forall>r \<in> set rs. f32_le f32_zero (row_score r))"
  then have "filter (passes (DOC_CLASSES E) f32_zero) rs = filter (class_in_range (DOC_CLASSES E)) rs"
    by (intro filter_passes_zero) blast
  with a show "fst (detectDocLayout E img f32_zero w) =
        Ok (map (box_of_row (DOC_CLASSES E) img (inv_scale l sf 0) (inv_scale l sf 1))
              (filter (class_in_range (DOC_CLASSES E)) rs))"
    using detect_rows[of img E w s n out0 w1 sf it st w2 l feed rs others f32_zero] by simp
qed

theorem zero_threshold_keeps_in_range_rows_witness:
  "fst (detectDocLayout
     (stub_env (Ok (stub_session two_input_names
        (Ok [tensor_of_rows [row_of 2 (87/100) 100 50 300 200,
                             row_of 0 (- 1/2) 10 10 50 50,
                             row_of 7 (9/10) 10 10 50 50,
                             row_of 1 (1/10) 10 10 50 50]]))) three_classes)
     (blank_image 1280 1280) f32_zero fresh_world) =
   Ok [\<lparr>x1 = Fin False 200, y1 = Fin False 100, x2 = Fin False 600, y2 = Fin False 400,
        score = f32_of_rat (87/100), class_id = 2, class_name = ''class_2''\<rparr>,
       \<lparr>x1 = Fin False 20, y1 = Fin False 20, x2 = Fin False 100, y2 = Fin False 100,
        score = f32_of_rat (1/10), class_id = 1, class_name = ''class_1''\<rparr>] \<and>
   fst (detectDocLayout
     (stub_env (Ok (stub_session two_input_names
        (Ok [tensor_of_rows [row_of 2 (87/100) 100 50 300 200,
                             row_of 7 (9/10) 10 10 50 50,
                             row_of 1 (1/10) 10 10 50 50]]))) three_classes)
     (blank_image 1280 1280) f32_zero fresh_world) =
   Ok [\<lparr>x1 = Fin False 200, y1 = Fin False 100, x2 = Fin False 600, y2 = Fin False 400,
        score = f32_of_rat (87/100), class_id = 2, class_name = ''class_2''\<rparr>,
       \<lparr>x1 = Fin False 20, y1 = Fin False 20, x2 = Fin False 100, y2 = Fin False 100,
        score = f32_of_rat (1/10), class_id = 1, class_name = ''class_1''\<rparr>]"
proof -
  let ?img = "blank_image 1280 1280"
  let ?r1 = "row_of 2 (87/100) 100 50 300 200" and ?r2 = "row_of 0 (- 1/2) 10 10 50 50"
  let ?r3 = "row_of 7 (9/10) 10 10 50 50" and ?r4 = "row_of 1 (1/10) 10 10 50 50"
  let ?rs = "[?r1, ?r2, ?r3, ?r4]" and ?rs' = "[?r1, ?r3, ?r4]"
  let ?sf = "ScaleFactor_spec ?img 640 640"
  let ?st = "\<lparr>shape = [1, 2], tdata = ?sf\<rparr>"
  note T = zero_threshold_keeps_in_range_rows
  have n: "two_input_names \<noteq> []" "length two_input_names \<noteq> 3"
    by (simp_all add: two_input_names_def)
  have ne: "\<not> Mat_empty ?img" by (simp add: Mat_empty_blank_image)
  note i = stub_init_runtime[OF n(1), of _ three_classes]
  note p = stub_prepare_tensors[of _ three_classes ?img]
  note b = build_inputs_other[OF n(2), of ?img stub_image_tensor ?st]
  have r: "Run (stub_session two_input_names (Ok [tensor_of_rows x])) f [''output''] =
      Ok (tensor_of_rows x # [])" for f x
    by (simp add: stub_session_def)
  have sz: "6 * length ?rs \<le> 2147483647" "6 * length ?rs' \<le> 2147483647" by simp_all
  note cv = convertible_row_of[OF class_values(1)] convertible_row_of[OF class_values(2)]
    convertible_row_of[OF class_values(3)] convertible_row_of[OF class_values(4)]
  have conv: "\<forall>r \<in> set ?rs. convertible r" "\<forall>r \<in> set ?rs'. convertible r"
    by (simp_all add: cv)
  have pos: "\<forall>r \<in> set ?rs'. f32_le f32_zero (row_score r)"
    by (simp add: row_of_sel score_values)
  have c: "DOC_CLASSES (stub_env x three_classes) = three_classes" for x
    by (simp add: stub_env_def)
  note ids = row_class_id_row_of[OF class_values(1)] row_class_id_row_of[OF class_values(2)]
    row_class_id_row_of[OF class_values(3)] row_class_id_row_of[OF class_values(4)]
  have neg: "\<not> f32_le f32_zero (row_score ?r2)"
    using score_values(7) by (simp add: row_of_sel)
  have f: "filter (\<lambda>r. class_in_range three_classes r \<and> f32_le f32_zero (row_score r)) ?rs =
      [?r1, ?r4]"
    using neg by (simp add: class_in_range_def ids row_of_sel score_values three_classes_def)
  have f': "filter (class_in_range three_classes) ?rs' = [?r1, ?r4]"
    by (simp add: class_in_range_def ids three_classes_def)
  have "fst (detectDocLayout
      (stub_env (Ok (stub_session two_input_names (Ok [tensor_of_rows ?rs]))) three_classes)
      ?img f32_zero fresh_world) =
      Ok (map (box_of_row three_classes ?img (inv_scale False ?sf 0) (inv_scale False ?sf 1))
            (filter (\<lambda>r. class_in_range three_classes r \<and> f32_le f32_zero (row_score r)) ?rs))"
    using T[THEN conjunct2, THEN conjunct2, THEN conjunct1, THEN mp,
          OF conjI[OF ne conjI[OF i conjI[OF p conjI[OF b conjI[OF r conjI[OF sz(1) conv(1)]]]]]]]
    by (simp only: c)
  then have 1: "fst (detectDocLayout
      (stub_env (Ok (stub_session two_input_names (Ok [tensor_of_rows ?rs]))) three_classes)
      ?img f32_zero fresh_world) =
   Ok [\<lparr>x1 = Fin False 200, y1 = Fin False 100, x2 = Fin False 600, y2 = Fin False 400,
        score = f32_of_rat (87/100), class_id = 2, class_name = ''class_2''\<rparr>,
       \<lparr>x1 = Fin False 20, y1 = Fin False 20, x2 = Fin False 100, y2 = Fin False 100,
        score = f32_of_rat (1/10), class_id = 1, class_name = ''class_1''\<rparr>]"
    unfolding f inv_scale_1280 by (simp add: scenario_box_1280 box_1_tenth three_classes_def)
  have "fst (detectDocLayout
      (stub_env (Ok (stub_session two_input_names (Ok [tensor_of_rows ?rs']))) three_classes)
      ?img f32_zero fresh_world) =
      Ok (map (box_of_row three_classes ?img (inv_scale False ?sf 0) (inv_scale False ?sf 1))
            (filter (class_in_range three_classes) ?rs'))"
    using T[THEN conjunct2, THEN conjunct2, THEN conjunct2, THEN mp,
          OF conjI[OF ne conjI[OF i conjI[OF p conjI[OF b conjI[OF r conjI[OF sz(2)
            conjI[OF conv(2) pos]]]]]]]]
    by (simp only: c)
  then have 2: "fst (detectDocLayout
      (stub_env (Ok (stub_session two_input_names (Ok [tensor_of_rows ?rs']))) three_classes)
      ?img f32_zero fresh_world) =
   Ok [\<lparr>x1 = Fin False 200, y1 = Fin False 100, x2 = Fin False 600, y2 = Fin False 400,
        score = f32_of_rat (87/100), class_id = 2, class_name = ''class_2''\<rparr>,
       \<lparr>x1 = Fin False 20, y1 = Fin False 20, x2 = Fin False 100, y2 = Fin False 100,
        score = f32_of_rat (1/10), class_id = 1, class_name = ''class_1''\<rparr>]"
    unfolding f' inv_scale_1280 by (simp add: scenario_box_1280 box_1_tenth three_classes_def)
  from 1 2 show ?thesis by (intro conjI)
qed




text \<open>
  Claim C5 says that a 1280 by 960 image resized to 640 by 640 has the scale factor
  \<open>(0.5, 0.5)\<close> and that the row \<open>[2, 0.87, 100, 50, 300, 200]\<close> decodes to the box
  \<open>(200, 100, 600, 400)\<close>. The vertical scale is \<open>640 / 960\<close>, not \<open>0.5\<close>, and the box has
  \<open>y1 = 75\<close> and \<open>y2 = 300\<close>. The normaliser is the one the specification describes.
\<close>

theorem scenario_1280_960_counterexample:
  "ScaleFactor_spec (blank_image 1280 960) 640 640 =
     [Fin False (1/2), Fin False (11184811 / 16777216)] \<and>
   ScaleFactor_spec (blank_image 1280 960) 640 640 \<noteq> [Fin False (1/2), Fin False (1/2)] \<and>
   fst (detectDocLayout
     (stub_env (Ok (stub_session two_input_names
        (Ok [tensor_of_rows [row_of 2 (87/100) 100 50 300 200]]))) three_classes)
     (blank_image 1280 960) (f32_of_rat (1/2)) fresh_world) =
   Ok [\<lparr>x1 = Fin False 200, y1 = Fin False 75, x2 = Fin False 600, y2 = Fin False 300,
        score = f32_of_rat (87/100), class_id = 2, class_name = ''class_2''\<rparr>]"
proof -
  have "2 < length three_classes" by (simp add: three_classes_def)
  from scenario_run[OF this, of 1280 960, unfolded ScaleFactor_spec_1280_960
      inv_scale_1280_960 scenario_box_960]
  show ?thesis
    by (simp add: ScaleFactor_spec_1280_960 three_classes_def)
qed

text \<open>
  Claim C5, as the code has it. For a 1280 by 960 image and the target size 640 by 640
  the scale factor is \<open>(0.5, 640 / 960)\<close>, the second component being the binary32 value
  \<open>11184811 / 2^24\<close>, and under the two-input schema the row
  \<open>[2, 0.87, 100, 50, 300, 200]\<close> with threshold \<open>0.5\<close> decodes to the box with \<open>x1 = 200\<close>,
  \<open>y1 = 75\<close>, \<open>x2 = 600\<close>, \<open>y2 = 300\<close>, the score \<open>0.87\<close>, the class 2 and the name at index
  2 of the class table. The scale factor \<open>(0.5, 0.5)\<close> and the box
  \<open>(200, 100, 600, 400)\<close> are those of a 1280 by 1280 image.
\<close>

theorem scenario_1280_960:
  "ScaleFactor_spec (blank_image 1280 960) 640 640 =
     [Fin False (1/2), Fin False (11184811 / 16777216)] \<and>
   (2 < length cls \<longrightarrow>
      fst (detectDocLayout
        (stub_env (Ok (stub_session two_input_names
           (Ok [tensor_of_rows [row_of 2 (87/100) 100 50 300 200]]))) cls)
        (blank_image 1280 960) (f32_of_rat (1/2)) fresh_world) =
      Ok [\<lparr>x1 = Fin False 200, y1 = Fin False 75, x2 = Fin False 600, y2 = Fin False 300,
           score = f32_of_rat (87/100), class_id = 2, class_name = cls ! 2\<rparr>]) \<and>
   ScaleFactor_spec (blank_image 1280 1280) 640 640 = [Fin False (1/2), Fin False (1/2)] \<and>
   (2 < length cls \<longrightarrow>
      fst (detectDocLayout
        (stub_env (Ok (stub_session two_input_names
           (Ok [tensor_of_rows [row_of 2 (87/100) 100 50 300 200]]))) cls)
        (blank_image 1280 1280) (f32_of_rat (1/2)) fresh_world) =
      Ok [\<lparr>x1 = Fin False 200, y1 = Fin False 100, x2 = Fin False 600, y2 = Fin False 400,
           score = f32_of_rat (87/100), class_id = 2, class_name = cls ! 2\<rparr>])"
proof (intro conjI impI)
  show "ScaleFactor_spec (blank_image 1280 960) 640 640 =
     [Fin False (1/2), Fin False (11184811 / 16777216)]"
    by (rule ScaleFactor_spec_1280_960)
  show "ScaleFactor_spec (blank_image 1280 1280) 640 640 = [Fin False (1/2), Fin False (1/2)]"
    by (rule ScaleFactor_spec_1280)
next
  assume "2 < length cls"
  from scenario_run[OF this, of 1280 960, unfolded ScaleFactor_spec_1280_960
      inv_scale_1280_960 scenario_box_960]
  show "fst (detectDocLayout
        (stub_env (Ok (stub_session two_input_names
           (Ok [tensor_of_rows [row_of 2 (87/100) 100 50 300 200]]))) cls)
        (blank_image 1280 960) (f32_of_rat (1/2)) fresh_world) =
      Ok [\<lparr>x1 = Fin False 200, y1 = Fin False 75, x2 = Fin False 600, y2 = Fin False 300,
           score = f32_of_rat (87/100), class_id = 2, class_name = cls ! 2\<rparr>]"
    by simp
next
  assume "2 < length cls"
  from scenario_run[OF this, of 1280 1280, unfolded inv_scale_1280 scenario_box_1280]
  show "fst (detectDocLayout
        (stub_env (Ok (stub_session two_input_names
           (Ok [tensor_of_rows [row_of 2 (87/100) 100 50 300 200]]))) cls)
        (blank_image 1280 1280) (f32_of_rat (1/2)) fresh_world) =
      Ok [\<lparr>x1 = Fin False 200, y1 = Fin False 100, x2 = Fin False 600, y2 = Fin False 400,
           score = f32_of_rat (87/100), class_id = 2, class_name = cls ! 2\<rparr>]"
    by simp
qed

theorem scenario_1280_960_witness:
  "2 < length three_classes \<and>
   fst (detectDocLayout
     (stub_env (Ok (stub_session two_input_names
        (Ok [tensor_of_rows [row_of 2 (87/100) 100 50 300 200]]))) three_classes)
     (blank_image 1280 960) (f32_of_rat (1/2)) fresh_world) =
   Ok [\<lparr>x1 = Fin False 200, y1 = Fin False 75, x2 = Fin False 600, y2 = Fin False 300,
        score = f32_of_rat (87/100), class_id = 2, class_name = three_classes ! 2\<rparr>] \<and>
   fst (detectDocLayout
     (stub_env (Ok (stub_session two_input_names
        (Ok [tensor_of_rows [row_of 2 (87/100) 100 50 300 200]]))) three_classes)
     (blank_image 1280 1280) (f32_of_rat (1/2)) fresh_world) =
   Ok [\<lparr>x1 = Fin False 200, y1 = Fin False 100, x2 = Fin False 600, y2 = Fin False 400,
        score = f32_of_rat (87/100), class_id = 2, class_name = three_classes ! 2\<rparr>]"
proof -
  have h: "2 < length three_classes" by (simp add: three_classes_def)
  note T = scenario_1280_960[where cls = three_classes]
  from h T[THEN conjunct2, THEN conjunct1, THEN mp, OF h]
    T[THEN conjunct2, THEN conjunct2, THEN conjunct2, THEN mp, OF h]
  show ?thesis by (intro conjI)
qed

text \<open>
  Claim C10. Each of the three serialisers writes, for every detection, the coordinates in
  fixed-point notation with the precision set before \<open>x1\<close> (two decimals in
  \<open>detectionsToJson\<close>, one in \<open>detectLayout\<close> and in \<open>detectLayoutFromBytes\<close>) and the
  score in fixed-point notation with four decimals. The text of a finite value in
  fixed-point notation with \<open>p > 0\<close> decimals is its sign, the digits of its whole part,
  a point and exactly \<open>p\<close> digits.
\<close>

theorem score_written_with_four_decimals:
  \<open>detectionsToJson dflt ds =
     ''{"detections":['' @ comma_separated (map (box_text 2 4) ds) @
     ''],"count":'' @ show_digits (int (length ds)) @ ''}'' \<and>
   detectLayout_json dflt ds inference_time img =
     ''{"detections":['' @ comma_separated (map (box_text 1 4) ds) @
     ''],"count":'' @ show_digits (int (length ds)) @
     '',"inference_time_ms":'' @ show_int inference_time @
     '',"image_width":'' @ show_int (int (cols img)) @
     '',"image_height":'' @ show_int (int (rows img)) @ ''}'' \<and>
   detectLayoutFromBytes_json dflt ds inference_time width height =
     ''{"detections":['' @ comma_separated (map (box_text 1 4) ds) @
     ''],"count":'' @ show_digits (int (length ds)) @
     '',"inference_time_ms":'' @ show_int inference_time @
     '',"image_width":'' @ show_int width @
     '',"image_height":'' @ show_int height @ ''}'' \<and>
   box_text cp 4 box =
     ''{"x1":'' @ show_fixed cp (x1 box) @ '',"y1":'' @ show_fixed cp (y1 box) @
     '',"x2":'' @ show_fixed cp (x2 box) @ '',"y2":'' @ show_fixed cp (y2 box) @
     '',"score":'' @ show_fixed 4 (score box) @
     '',"class_id":'' @ show_int (class_id box) @
     '',"class_name":"'' @ class_name box @ ''"}'' \<and>
   (0 < p \<longrightarrow>
      show_fixed p (Fin s m) =
        (if s then ''-'' else []) @ show_digits (rne (m * 10 ^ p) div 10 ^ p) @ ''.'' @
        zero_pad p (show_digits (rne (m * 10 ^ p) mod 10 ^ p)) \<and>
      length (zero_pad p (show_digits (rne (m * 10 ^ p) mod 10 ^ p))) = p \<and>
      set (zero_pad p (show_digits (rne (m * 10 ^ p) mod 10 ^ p))) \<subseteq> set ''0123456789'' \<and>
      set (show_digits (rne (m * 10 ^ p) div 10 ^ p)) \<subseteq> set ''0123456789'')\<close>
  using detectionsToJson_eq[of dflt ds] detectLayout_json_eq[of dflt ds inference_time img]
    detectLayoutFromBytes_json_eq[of dflt ds inference_time width height]
    show_fixed_shape(1)[of p s m] show_fixed_shape(2-4)[of p m] box_text_def[of cp 4 box]
  by blast

theorem score_written_with_four_decimals_witness:
  \<open>detectionsToJson (\<lambda>p v. [])
     [\<lparr>x1 = Fin False 200, y1 = Fin False 75, x2 = Fin False 600, y2 = Fin False 300,
       score = Fin False (7298089 / 8388608), class_id = 2, class_name = ''class_2''\<rparr>,
      \<lparr>x1 = Fin False (1/8), y1 = Fin False 0, x2 = Fin False (2001/2), y2 = Fin False 50,
       score = Fin False 1, class_id = 0, class_name = ''class_0''\<rparr>] =
   ''{"detections":[{"x1":200.00,"y1":75.00,"x2":600.00,"y2":300.00,"score":0.8700,"class_id":2,"class_name":"class_2"},{"x1":0.12,"y1":0.00,"x2":1000.50,"y2":50.00,"score":1.0000,"class_id":0,"class_name":"class_0"}],"count":2}'' \<and>
   detectLayout_json (\<lambda>p v. [])
     [\<lparr>x1 = Fin False 200, y1 = Fin False 75, x2 = Fin False 600, y2 = Fin False 300,
       score = Fin False (7298089 / 8388608), class_id = 2, class_name = ''class_2''\<rparr>] 37
     (blank_image 1280 960) =
   ''{"detections":[{"x1":200.0,"y1":75.0,"x2":600.0,"y2":300.0,"score":0.8700,"class_id":2,"class_name":"class_2"}],"count":1,"inference_time_ms":37,"image_width":1280,"image_height":960}'' \<and>
   detectLayoutFromBytes_json (\<lambda>p v. []) [] 5 640 480 =
   ''{"detections":[],"count":0,"inference_time_ms":5,"image_width":640,"image_height":480}'' \<and>
   f32_of_rat (87/100) = Fin False (7298089 / 8388608) \<and>
   show_fixed 4 (Fin False (7298089 / 8388608)) = ''0.8700'' \<and>
   zero_pad 4 (show_digits (rne (7298089 / 8388608 * 10 ^ 4) mod 10 ^ 4)) = ''8700'' \<and>
   length ''8700'' = 4\<close>
proof -
  let ?b1 = "\<lparr>x1 = Fin False 200, y1 = Fin False 75, x2 = Fin False 600, y2 = Fin False 300,
       score = Fin False (7298089 / 8388608), class_id = 2, class_name = ''class_2''\<rparr>"
  let ?b2 = "\<lparr>x1 = Fin False (1/8), y1 = Fin False 0, x2 = Fin False (2001/2), y2 = Fin False 50,
       score = Fin False 1, class_id = 0, class_name = ''class_0''\<rparr>"
  let ?j1 = \<open>''{"detections":[{"x1":200.00,"y1":75.00,"x2":600.00,"y2":300.00,"score":0.8700,"class_id":2,"class_name":"class_2"},{"x1":0.12,"y1":0.00,"x2":1000.50,"y2":50.00,"score":1.0000,"class_id":0,"class_name":"class_0"}],"count":2}''\<close>
  let ?j2 = \<open>''{"detections":[{"x1":200.0,"y1":75.0,"x2":600.0,"y2":300.0,"score":0.8700,"class_id":2,"class_name":"class_2"}],"count":1,"inference_time_ms":37,"image_width":1280,"image_height":960}''\<close>
  let ?j3 = \<open>''{"detections":[],"count":0,"inference_time_ms":5,"image_width":640,"image_height":480}''\<close>
  note T = score_written_with_four_decimals
  have v1: \<open>''{"detections":['' @ comma_separated (map (box_text 2 4) [?b1, ?b2]) @
     ''],"count":'' @ show_digits (int (length [?b1, ?b2])) @ ''}'' =
     ''{"detections":[{"x1":200.00,"y1":75.00,"x2":600.00,"y2":300.00,"score":0.8700,"class_id":2,"class_name":"class_2"},{"x1":0.12,"y1":0.00,"x2":1000.50,"y2":50.00,"score":1.0000,"class_id":0,"class_name":"class_0"}],"count":2}''\<close>
    by code_simp
  have v2: \<open>''{"detections":['' @ comma_separated (map (box_text 1 4) [?b1]) @
     ''],"count":'' @ show_digits (int (length [?b1])) @
     '',"inference_time_ms":'' @ show_int 37 @
     '',"image_width":'' @ show_int 1280 @
     '',"image_height":'' @ show_int 960 @ ''}'' =
     ''{"detections":[{"x1":200.0,"y1":75.0,"x2":600.0,"y2":300.0,"score":0.8700,"class_id":2,"class_name":"class_2"}],"count":1,"inference_time_ms":37,"image_width":1280,"image_height":960}''\<close>
    by code_simp
  have v3: \<open>''{"detections":['' @ comma_separated (map (box_text 1 4) []) @
     ''],"count":'' @ show_digits (int (length ([] :: DetectionBox list))) @
     '',"inference_time_ms":'' @ show_int 5 @
     '',"image_width":'' @ show_int 640 @
     '',"image_height":'' @ show_int 480 @ ''}'' =
     ''{"detections":[],"count":0,"inference_time_ms":5,"image_width":640,"image_height":480}''\<close>
    by code_simp
  have v4: "f32_of_rat (87/100) = Fin False (7298089 / 8388608)" by code_simp
  have v5: "(if False then ''-'' else []) @
      show_digits (rne (7298089 / 8388608 * 10 ^ 4) div 10 ^ 4) @ ''.'' @
      zero_pad 4 (show_digits (rne (7298089 / 8388608 * 10 ^ 4) mod 10 ^ 4)) = ''0.8700''"
    by code_simp
  have 1: "detectionsToJson (\<lambda>p v. []) [?b1, ?b2] = ?j1"
    using T[where dflt = "\<lambda>p v. []" and ds = "[?b1, ?b2]", THEN conjunct1] unfolding v1 .
  have \<open>detectLayout_json (\<lambda>p v. []) [?b1] 37 (blank_image 1280 960) =
     ''{"detections":['' @ comma_separated (map (box_text 1 4) [?b1]) @
     ''],"count":'' @ show_digits (int (length [?b1])) @
     '',"inference_time_ms":'' @ show_int 37 @
     '',"image_width":'' @ show_int 1280 @
     '',"image_height":'' @ show_int 960 @ ''}''\<close>
    using T[where dflt = "\<lambda>p v. []" and ds = "[?b1]" and inference_time = 37
        and img = "blank_image 1280 960", THEN conjunct2, THEN conjunct1]
    by (simp only: cols_blank_image rows_blank_image of_nat_numeral)
  then have 2: "detectLayout_json (\<lambda>p v. []) [?b1] 37 (blank_image 1280 960) = ?j2"
    unfolding v2 .
  have 3: "detectLayoutFromBytes_json (\<lambda>p v. []) [] 5 640 480 = ?j3"
    using T[where dflt = "\<lambda>p v. []" and ds = "[]" and inference_time = 5 and width = 640
        and height = 480, THEN conjunct2, THEN conjunct2, THEN conjunct1]
    unfolding v3 .
  have p4: "(0::nat) < 4" by simp
  note S = T[where p = 4 and s = False and m = "7298089 / 8388608", THEN conjunct2,
      THEN conjunct2, THEN conjunct2, THEN conjunct2, THEN mp, OF p4]
  have 5: "show_fixed 4 (Fin False (7298089 / 8388608)) = ''0.8700''"
    using S[THEN conjunct1] unfolding v5 .
  have v6: "zero_pad 4 (show_digits (rne (7298089 / 8388608 * 10 ^ 4) mod 10 ^ 4)) = ''8700''"
    by code_simp
  have 6: "length ''8700'' = 4"
    using S[THEN conjunct2, THEN conjunct1] unfolding v6 .
  from 1 2 3 v4 5 v6 6 show ?thesis by (intro conjI)
qed

end
